theory Spec2Isabelle
  imports Complex_Main
begin

section \<open>Python values\<close>

text \<open>
  The exceptions that the modelled part of \<^verbatim>\<open>pymodaq/utils/data.py\<close> can raise.
  Every \<^verbatim>\<open>raise\<close> of the source is an \<open>Inl\<close> result of the model.
\<close>

datatype error = TypeError | ValueError | IndexError | DataShapeError

text \<open>
  Numbers held by numpy arrays and by the \<^verbatim>\<open>offset\<close>/\<^verbatim>\<open>scaling\<close> attributes.
  Arithmetic is exact (no rounding); \<open>NaN\<close> is kept as a value because numpy produces it
  from finite input (the mean of an empty array) and because it is not close to itself.
\<close>

datatype npfloat = Fl real | NaN

fun fadd :: "npfloat \<Rightarrow> npfloat \<Rightarrow> npfloat" where
  "fadd (Fl a) (Fl b) = Fl (a + b)"
| "fadd _ _ = NaN"

fun fsub :: "npfloat \<Rightarrow> npfloat \<Rightarrow> npfloat" where
  "fsub (Fl a) (Fl b) = Fl (a - b)"
| "fsub _ _ = NaN"

fun fmul :: "npfloat \<Rightarrow> npfloat \<Rightarrow> npfloat" where
  "fmul (Fl a) (Fl b) = Fl (a * b)"
| "fmul _ _ = NaN"

text \<open>Comparison \<^verbatim>\<open>a < b\<close>: false as soon as one side is NaN.\<close>

fun fless :: "npfloat \<Rightarrow> npfloat \<Rightarrow> bool" where
  "fless (Fl a) (Fl b) = (a < b)"
| "fless _ _ = False"

text \<open>\<^verbatim>\<open>np.minimum\<close> and \<^verbatim>\<open>np.maximum\<close> of two numbers: NaN propagates.\<close>

fun fmin :: "npfloat \<Rightarrow> npfloat \<Rightarrow> npfloat" where
  "fmin (Fl a) (Fl b) = Fl (min a b)"
| "fmin _ _ = NaN"

fun fmax :: "npfloat \<Rightarrow> npfloat \<Rightarrow> npfloat" where
  "fmax (Fl a) (Fl b) = Fl (max a b)"
| "fmax _ _ = NaN"

subsection \<open>The numpy functions the source calls\<close>

text \<open>\<^verbatim>\<open>np.linspace(0, nsteps-1, nsteps)\<close>: the numbers \<open>0, 1, ..., nsteps-1\<close>.\<close>

definition linspace0 :: "nat \<Rightarrow> npfloat list" where
  "linspace0 nsteps = map (\<lambda>i. Fl (real i)) [0..<nsteps]"

text \<open>\<^verbatim>\<open>np.diff\<close>: the consecutive differences of a one-dimensional array.\<close>

fun np_diff :: "npfloat list \<Rightarrow> npfloat list" where
  "np_diff (x # y # ys) = fsub y x # np_diff (y # ys)"
| "np_diff _ = []"

text \<open>\<^verbatim>\<open>np.mean\<close>: NaN (with a warning) on the empty array.\<close>

definition np_mean :: "npfloat list \<Rightarrow> npfloat" where
  "np_mean xs =
     (if xs = [] then NaN
      else fmul (foldl fadd (Fl 0) xs) (Fl (1 / real (length xs))))"

text \<open>\<^verbatim>\<open>np.min\<close> and \<^verbatim>\<open>np.max\<close>: ValueError on the empty array.\<close>

definition np_min :: "npfloat list \<Rightarrow> error + npfloat" where
  "np_min xs = (case xs of [] \<Rightarrow> Inl ValueError | x # ys \<Rightarrow> Inr (foldl fmin x ys))"

definition np_max :: "npfloat list \<Rightarrow> error + npfloat" where
  "np_max xs = (case xs of [] \<Rightarrow> Inl ValueError | x # ys \<Rightarrow> Inr (foldl fmax x ys))"

text \<open>
  \<^verbatim>\<open>np.isclose(a, b)\<close> with the default tolerances \<^verbatim>\<open>rtol=1e-05\<close>,
  \<^verbatim>\<open>atol=1e-08\<close> and \<^verbatim>\<open>equal_nan=False\<close>.
\<close>

fun isclose :: "npfloat \<Rightarrow> npfloat \<Rightarrow> bool" where
  "isclose (Fl a) (Fl b) = (\<bar>a - b\<bar> \<le> 1 / 10 ^ 8 + (1 / 10 ^ 5) * \<bar>b\<bar>)"
| "isclose _ _ = False"

text \<open>\<^verbatim>\<open>np.allclose(arr, scalar)\<close>: every element is close to the scalar.\<close>

definition allclose_scalar :: "npfloat list \<Rightarrow> npfloat \<Rightarrow> bool" where
  "allclose_scalar xs b = list_all (\<lambda>a. isclose a b) xs"

section \<open>Axis\<close>

text \<open>
  The attributes of \<^verbatim>\<open>class Axis\<close>: \<^verbatim>\<open>_label\<close>, \<^verbatim>\<open>_units\<close>,
  \<^verbatim>\<open>_data\<close> (None in compact form), \<^verbatim>\<open>_index\<close> (the setter admits only
  non-negative integers), \<^verbatim>\<open>_scaling\<close>, \<^verbatim>\<open>_offset\<close> (None unless given or
  extracted) and \<^verbatim>\<open>_size\<close>.
\<close>

record Axis =
  ax_label :: string
  ax_units :: string
  ax_data :: "npfloat list option"
  ax_index :: nat
  ax_scaling :: "npfloat option"
  ax_offset :: "npfloat option"
  ax_size :: nat

text \<open>
  The \<^verbatim>\<open>data\<close> setter: stores the array and its length, or None and size 0.
  \<^verbatim>\<open>_check_data_valid\<close> (a one-dimensional ndarray) holds by the type.
\<close>

definition Axis_set_data :: "Axis \<Rightarrow> npfloat list option \<Rightarrow> Axis" where
  "Axis_set_data self data =
     (case data of
        Some d \<Rightarrow> self\<lparr>ax_size := length d, ax_data := Some d\<rparr>
      | None \<Rightarrow> self\<lparr>ax_size := 0, ax_data := None\<rparr>)"

text \<open>The \<^verbatim>\<open>size\<close> setter: honoured only when no explicit data is stored.\<close>

definition Axis_set_size :: "Axis \<Rightarrow> nat \<Rightarrow> Axis" where
  "Axis_set_size self n = (if ax_data self = None then self\<lparr>ax_size := n\<rparr> else self)"

text \<open>
  \<^verbatim>\<open>is_axis_linear(data)\<close>:
  \<^verbatim>\<open>np.allclose(np.diff(data), np.mean(np.diff(data)))\<close>, False when there is no data.
\<close>

definition is_axis_linear :: "npfloat list option \<Rightarrow> bool" where
  "is_axis_linear data =
     (case data of
        Some d \<Rightarrow> allclose_scalar (np_diff d) (np_mean (np_diff d))
      | None \<Rightarrow> False)"

text \<open>
  \<^verbatim>\<open>get_scale_offset_from_data(data)\<close>: on linear data, keeps the mean step as scaling
  and \<^verbatim>\<open>data[0]\<close> as offset and drops the array. The empty array passes the linearity
  test, and \<^verbatim>\<open>data[0]\<close> raises IndexError on it.
\<close>

definition get_scale_offset_from_data :: "Axis \<Rightarrow> npfloat list option \<Rightarrow> error + Axis" where
  "get_scale_offset_from_data self data0 =
     (let data = (if data0 = None \<and> ax_data self \<noteq> None then ax_data self else data0)
      in if is_axis_linear data then
           (case data of
              Some (x # xs) \<Rightarrow>
                Inr (self\<lparr>ax_scaling := Some (np_mean (np_diff (x # xs))),
                          ax_offset := Some x, ax_data := None\<rparr>)
            | _ \<Rightarrow> Inl IndexError)
         else Inr self)"

text \<open>
  \<^verbatim>\<open>Axis.__init__(label, units, data, index, scaling, offset)\<close>. The index is checked
  by \<^verbatim>\<open>_check_index_valid\<close>: a negative integer raises ValueError.
\<close>

definition Axis_init ::
  "string \<Rightarrow> string \<Rightarrow> npfloat list option \<Rightarrow> int \<Rightarrow> npfloat option \<Rightarrow> npfloat option
     \<Rightarrow> error + Axis" where
  "Axis_init label units data index scaling offset =
     (let self = Axis_set_data
           \<lparr>ax_label = label, ax_units = units, ax_data = None, ax_index = 0,
            ax_scaling = scaling, ax_offset = offset, ax_size = 0\<rparr> data
      in if index < 0 then Inl ValueError
         else get_scale_offset_from_data (self\<lparr>ax_index := nat index\<rparr>) data)"

text \<open>
  \<^verbatim>\<open>create_linear_data(nsteps)\<close>:
  \<^verbatim>\<open>self.data = self._offset + self._scaling * np.linspace(0, nsteps-1, nsteps)\<close>.
  It stores the array through the \<^verbatim>\<open>data\<close> setter and returns nothing. With a None
  offset or scaling the elementwise product raises TypeError at the first element, so only
  the empty array gets through.
\<close>

definition create_linear_data :: "Axis \<Rightarrow> nat \<Rightarrow> error + Axis" where
  "create_linear_data self nsteps =
     (case (ax_offset self, ax_scaling self) of
        (Some off, Some sc) \<Rightarrow>
          Inr (Axis_set_data self (Some (map (\<lambda>x. fadd off (fmul sc x)) (linspace0 nsteps))))
      | _ \<Rightarrow> if nsteps = 0 then Inr (Axis_set_data self (Some [])) else Inl TypeError)"

text \<open>
  \<^verbatim>\<open>get_data()\<close>:
  \<^verbatim>\<open>return self._data if self._data is not None else self.create_linear_data(self.size)\<close>.
  The result is the returned Python value (\<open>None\<close> for Python's None) together with the
  axis after the call.
\<close>

definition get_data :: "Axis \<Rightarrow> error + (npfloat list option \<times> Axis)" where
  "get_data self =
     (case ax_data self of
        Some d \<Rightarrow> Inr (Some d, self)
      | None \<Rightarrow>
          (case create_linear_data self (ax_size self) of
             Inl e \<Rightarrow> Inl e
           | Inr self' \<Rightarrow> Inr (None, self')))"

text \<open>
  \<^verbatim>\<open>mean()\<close>, \<^verbatim>\<open>min()\<close> and \<^verbatim>\<open>max()\<close>: numpy on explicit data, a closed form
  otherwise. Arithmetic or comparison with a None offset or scaling raises TypeError.
\<close>

definition Axis_mean :: "Axis \<Rightarrow> error + npfloat" where
  "Axis_mean self =
     (case ax_data self of
        Some d \<Rightarrow> Inr (np_mean d)
      | None \<Rightarrow>
          (case (ax_offset self, ax_scaling self) of
             (Some off, Some sc) \<Rightarrow> Inr (fadd off (fmul (Fl (real (ax_size self) / 2)) sc))
           | _ \<Rightarrow> Inl TypeError))"

definition Axis_min :: "Axis \<Rightarrow> error + npfloat" where
  "Axis_min self =
     (case ax_data self of
        Some d \<Rightarrow> np_min d
      | None \<Rightarrow>
          (case (ax_offset self, ax_scaling self) of
             (Some off, Some sc) \<Rightarrow>
               Inr (fadd off (if fless sc (Fl 0) then fmul (Fl (real (ax_size self))) sc else Fl 0))
           | _ \<Rightarrow> Inl TypeError))"

definition Axis_max :: "Axis \<Rightarrow> error + npfloat" where
  "Axis_max self =
     (case ax_data self of
        Some d \<Rightarrow> np_max d
      | None \<Rightarrow>
          (case (ax_offset self, ax_scaling self) of
             (Some off, Some sc) \<Rightarrow>
               Inr (fadd off (if fless (Fl 0) sc then fmul (Fl (real (ax_size self))) sc else Fl 0))
           | _ \<Rightarrow> Inl TypeError))"

subsection \<open>Scalar multiplication and addition\<close>

text \<open>
  The operand of \<^verbatim>\<open>a * x\<close> and \<^verbatim>\<open>a + x\<close> is any Python object. Integers, floats
  and booleans are instances of \<^verbatim>\<open>numbers.Real\<close>; complex numbers, strings, None,
  sequences and other axes are not.
\<close>

datatype pyobj =
    PyInt int
  | PyFloat npfloat
  | PyBool bool
  | PyComplex real real
  | PyStr string
  | PyNone
  | PySeq "pyobj list"
  | PyAxis Axis

fun isinstance_Real :: "pyobj \<Rightarrow> bool" where
  "isinstance_Real (PyInt _) = True"
| "isinstance_Real (PyFloat _) = True"
| "isinstance_Real (PyBool _) = True"
| "isinstance_Real _ = False"

fun real_value :: "pyobj \<Rightarrow> npfloat" where
  "real_value (PyInt i) = Fl (real_of_int i)"
| "real_value (PyFloat x) = x"
| "real_value (PyBool b) = Fl (if b then 1 else 0)"
| "real_value _ = NaN"

text \<open>
  \<^verbatim>\<open>__mul__\<close> and \<^verbatim>\<open>__add__\<close> work on a deep copy \<^verbatim>\<open>ax\<close> of \<^verbatim>\<open>self\<close> and
  return it; when the operand is not a \<^verbatim>\<open>numbers.Real\<close> the body is skipped and the
  method returns None. The model returns the outcome (an error, or the returned object with
  \<open>None\<close> for Python's None) paired with \<^verbatim>\<open>self\<close> as it is after the call.
\<close>

definition Axis_mul :: "Axis \<Rightarrow> pyobj \<Rightarrow> (error + Axis option) \<times> Axis" where
  "Axis_mul self scale =
     (if isinstance_Real scale then
        (let ax = self in
         (case ax_data self of
            Some d \<Rightarrow>
              (Inr (Some (Axis_set_data ax (Some (map (\<lambda>x. fmul x (real_value scale)) d)))),
               self)
          | None \<Rightarrow>
              (case ax_offset ax of
                 None \<Rightarrow> (Inl TypeError, self)
               | Some off \<Rightarrow>
                   (case ax_scaling ax of
                      None \<Rightarrow> (Inl TypeError, self)
                    | Some sc \<Rightarrow>
                        (Inr (Some (ax\<lparr>ax_offset := Some (fmul off (real_value scale)),
                                       ax_scaling := Some (fmul sc (real_value scale))\<rparr>)),
                         self)))))
      else (Inr None, self))"

definition Axis_add :: "Axis \<Rightarrow> pyobj \<Rightarrow> (error + Axis option) \<times> Axis" where
  "Axis_add self offset =
     (if isinstance_Real offset then
        (let ax = self in
         (case ax_data self of
            Some d \<Rightarrow>
              (Inr (Some (Axis_set_data ax (Some (map (\<lambda>x. fadd x (real_value offset)) d)))),
               self)
          | None \<Rightarrow>
              (case ax_offset ax of
                 None \<Rightarrow> (Inl TypeError, self)
               | Some off \<Rightarrow>
                   (Inr (Some (ax\<lparr>ax_offset := Some (fadd off (real_value offset))\<rparr>)), self))))
      else (Inr None, self))"

section \<open>AxesManager\<close>

text \<open>
  The attributes of \<^verbatim>\<open>class AxesManager\<close>: \<^verbatim>\<open>_data_shape\<close>, \<^verbatim>\<open>_axes\<close>,
  \<^verbatim>\<open>_nav_indexes\<close> (None when the constructor is called without it) and
  \<^verbatim>\<open>_sig_indexes\<close>. The entries of the index tuples are Python integers.
\<close>

record AxesManager =
  am_data_shape :: "nat list"
  am_axes :: "Axis list"
  am_nav_indexes :: "int list option"
  am_sig_indexes :: "int list"

text \<open>
  \<^verbatim>\<open>get_shape_from_index(index)\<close>: the guard lets \<^verbatim>\<open>index == len(shape)\<close> through,
  and the tuple access raises IndexError on it.
\<close>

definition get_shape_from_index :: "AxesManager \<Rightarrow> nat \<Rightarrow> error + nat" where
  "get_shape_from_index self index =
     (if index > length (am_data_shape self) then Inl IndexError
      else if index < length (am_data_shape self) then Inr (am_data_shape self ! index)
      else Inl IndexError)"

text \<open>\<^verbatim>\<open>get_axes_index()\<close>: the indexes of the declared axes, in order.\<close>

definition get_axes_index :: "AxesManager \<Rightarrow> nat list" where
  "get_axes_index self = map ax_index (am_axes self)"

text \<open>
  The body of the loop of \<^verbatim>\<open>_check_axis\<close> for one axis: on a size that differs from
  the shape, the axis gets the size of the shape through the \<^verbatim>\<open>size\<close> setter, scaling 1
  and offset 0.
\<close>

definition check_axis_step :: "AxesManager \<Rightarrow> Axis \<Rightarrow> error + Axis" where
  "check_axis_step self axis =
     (case get_shape_from_index self (ax_index axis) of
        Inl e \<Rightarrow> Inl e
      | Inr n \<Rightarrow>
          if n \<noteq> ax_size axis
          then Inr ((Axis_set_size axis n)\<lparr>ax_scaling := Some (Fl 1), ax_offset := Some (Fl 0)\<rparr>)
          else Inr axis)"

fun check_axis_loop :: "AxesManager \<Rightarrow> Axis list \<Rightarrow> error + Axis list" where
  "check_axis_loop self [] = Inr []"
| "check_axis_loop self (axis # axes) =
     (case check_axis_step self axis of
        Inl e \<Rightarrow> Inl e
      | Inr axis' \<Rightarrow>
          (case check_axis_loop self axes of
             Inl e \<Rightarrow> Inl e
           | Inr axes' \<Rightarrow> Inr (axis' # axes')))"

text \<open>\<^verbatim>\<open>_check_axis(axes)\<close>: the loop, then \<^verbatim>\<open>self._axes = axes\<close>.\<close>

definition check_axis :: "AxesManager \<Rightarrow> Axis list \<Rightarrow> error + AxesManager" where
  "check_axis self axes =
     (case check_axis_loop self axes of
        Inl e \<Rightarrow> Inl e
      | Inr axes' \<Rightarrow> Inr (self\<lparr>am_axes := axes'\<rparr>))"

text \<open>
  \<^verbatim>\<open>compute_sig_indexes()\<close>: the dimension indexes \<open>0..len(shape)-1\<close> with the first
  occurrence of every navigation index popped. Iterating a None \<^verbatim>\<open>nav_indexes\<close> raises
  TypeError.
\<close>

definition compute_sig_indexes :: "AxesManager \<Rightarrow> error + int list" where
  "compute_sig_indexes self =
     (case am_nav_indexes self of
        None \<Rightarrow> Inl TypeError
      | Some nav \<Rightarrow>
          Inr (foldl (\<lambda>indexes index. if index \<in> set indexes then remove1 index indexes else indexes)
                 (map int [0..<length (am_data_shape self)]) nav))"

text \<open>
  \<^verbatim>\<open>_has_get_axis_from_index(index)\<close>: the first declared axis with this index.
\<close>

definition has_get_axis_from_index :: "AxesManager \<Rightarrow> nat \<Rightarrow> error + (bool \<times> Axis option)" where
  "has_get_axis_from_index self index =
     (if index > length (am_data_shape self) then Inl IndexError
      else (case find (\<lambda>axis. ax_index axis = index) (am_axes self) of
              Some axis \<Rightarrow> Inr (True, Some axis)
            | None \<Rightarrow> Inr (False, None)))"

text \<open>
  The keyword arguments \<^verbatim>\<open>x_axis\<close>, \<^verbatim>\<open>y_axis\<close>, \<^verbatim>\<open>nav_x_axis\<close> and
  \<^verbatim>\<open>nav_y_axis\<close> of the constructor, each an axis or None.
\<close>

record named_axes =
  x_axis :: "Axis option"
  y_axis :: "Axis option"
  nav_x_axis :: "Axis option"
  nav_y_axis :: "Axis option"

text \<open>
  \<^verbatim>\<open>axes.append(Axis(named.label, named.units, named.data, index=index))\<close>, where
  \<^verbatim>\<open>axes\<close> is the list \<^verbatim>\<open>self._axes\<close> itself.
\<close>

definition append_named :: "AxesManager \<Rightarrow> Axis \<Rightarrow> int \<Rightarrow> error + AxesManager" where
  "append_named self named index =
     (case Axis_init (ax_label named) (ax_units named) (ax_data named) index None None of
        Inl e \<Rightarrow> Inl e
      | Inr axis \<Rightarrow> Inr (self\<lparr>am_axes := am_axes self @ [axis]\<rparr>))"

text \<open>
  \<^verbatim>\<open>_manage_named_axes(axes, x_axis, y_axis, nav_x_axis, nav_y_axis)\<close>, one definition
  per \<^verbatim>\<open>if\<close> block of the source. Each takes and returns the manager and the flag
  \<^verbatim>\<open>modified\<close>.
\<close>

definition lacks_axis :: "AxesManager \<Rightarrow> nat \<Rightarrow> error + bool" where
  \<comment> \<open>\<^verbatim>\<open>not self._has_get_axis_from_index(index)[0]\<close>\<close>
  "lacks_axis self index =
     (case has_get_axis_from_index self index of
        Inl e \<Rightarrow> Inl e
      | Inr h \<Rightarrow> Inr (\<not> fst h))"

definition x_axis_index :: "AxesManager \<Rightarrow> error + int" where
  \<comment> \<open>the index given to \<^verbatim>\<open>x_axis\<close>; \<^verbatim>\<open>and\<close> evaluates its right side only when the
      left side holds\<close>
  "x_axis_index self =
     (let n = length (am_data_shape self) in
      case (if n = 1 then lacks_axis self 0 else Inr False) of
        Inl e \<Rightarrow> Inl e
      | Inr c1 \<Rightarrow>
          if c1 then Inr 0
          else (case (if n = 2 then lacks_axis self 1 else Inr False) of
                  Inl e \<Rightarrow> Inl e
                | Inr c2 \<Rightarrow> if c2 then Inr 1 else Inr 0))"

definition manage_x_axis ::
  "AxesManager \<times> bool \<Rightarrow> Axis option \<Rightarrow> error + (AxesManager \<times> bool)" where
  "manage_x_axis st x =
     (case x of
        None \<Rightarrow> Inr st
      | Some named \<Rightarrow>
          (case x_axis_index (fst st) of
             Inl e \<Rightarrow> Inl e
           | Inr index \<Rightarrow>
               (case append_named (fst st) named index of
                  Inl e \<Rightarrow> Inl e
                | Inr self' \<Rightarrow> Inr (self', True))))"

definition manage_y_axis ::
  "AxesManager \<times> bool \<Rightarrow> Axis option \<Rightarrow> error + (AxesManager \<times> bool)" where
  "manage_y_axis st y =
     (case y of
        None \<Rightarrow> Inr st
      | Some named \<Rightarrow>
          (case (if length (am_data_shape (fst st)) = 2 then lacks_axis (fst st) 0
                 else Inr False) of
             Inl e \<Rightarrow> Inl e
           | Inr c \<Rightarrow>
               if c then (case append_named (fst st) named 0 of
                            Inl e \<Rightarrow> Inl e
                          | Inr self' \<Rightarrow> Inr (self', True))
               else Inr st))"

definition manage_nav_axis ::
  "nat \<Rightarrow> AxesManager \<times> bool \<Rightarrow> Axis option \<Rightarrow> error + (AxesManager \<times> bool)" where
  "manage_nav_axis k st nv =
     (case nv of
        None \<Rightarrow> Inr st
      | Some named \<Rightarrow>
          (let self = fst st in
           case am_nav_indexes self of
             None \<Rightarrow> Inl TypeError
           | Some nav \<Rightarrow>
               if length nav > k
               then (case append_named self named (nav ! k) of
                       Inl e \<Rightarrow> Inl e
                     | Inr self' \<Rightarrow> Inr (self', True))
               else Inr st))"

definition manage_named_axes :: "AxesManager \<Rightarrow> named_axes \<Rightarrow> error + AxesManager" where
  "manage_named_axes self kwargs =
     (case manage_x_axis (self, False) (x_axis kwargs) of
        Inl e \<Rightarrow> Inl e
      | Inr st1 \<Rightarrow>
     (case manage_y_axis st1 (y_axis kwargs) of
        Inl e \<Rightarrow> Inl e
      | Inr st2 \<Rightarrow>
     (case manage_nav_axis 0 st2 (nav_x_axis kwargs) of
        Inl e \<Rightarrow> Inl e
      | Inr st3 \<Rightarrow>
     (case manage_nav_axis 1 st3 (nav_y_axis kwargs) of
        Inl e \<Rightarrow> Inl e
      | Inr st4 \<Rightarrow>
          if snd st4 then check_axis (fst st4) (am_axes (fst st4)) else Inr (fst st4)))))"

text \<open>
  \<^verbatim>\<open>AxesManager.__init__(data_shape, axes, nav_indexes, sig_indexes, **kwargs)\<close>: the
  shape, the axes and \<^verbatim>\<open>nav_indexes\<close> are stored as given, \<^verbatim>\<open>sig_indexes\<close> is
  computed when not given, then the axes are checked and the named axes added.
\<close>

definition AxesManager_init ::
  "nat list \<Rightarrow> Axis list \<Rightarrow> int list option \<Rightarrow> int list option \<Rightarrow> named_axes
     \<Rightarrow> error + AxesManager" where
  "AxesManager_init data_shape axes nav_indexes sig_indexes kwargs =
     (let self = \<lparr>am_data_shape = data_shape, am_axes = axes,
                  am_nav_indexes = nav_indexes, am_sig_indexes = []\<rparr>
      in case (case sig_indexes of Some s \<Rightarrow> Inr s | None \<Rightarrow> compute_sig_indexes self) of
           Inl e \<Rightarrow> Inl e
         | Inr s \<Rightarrow>
             (case check_axis (self\<lparr>am_sig_indexes := s\<rparr>) axes of
                Inl e \<Rightarrow> Inl e
              | Inr self' \<Rightarrow> manage_named_axes self' kwargs))"

text \<open>The \<^verbatim>\<open>axes\<close> setter: \<^verbatim>\<open>self._axes = axes[:]\<close>, then the check.\<close>

definition set_axes :: "AxesManager \<Rightarrow> Axis list \<Rightarrow> error + AxesManager" where
  "set_axes self axes = check_axis (self\<lparr>am_axes := axes\<rparr>) axes"

text \<open>
  \<^verbatim>\<open>append_axis(axis)\<close>: \<^verbatim>\<open>self._axes.append(axis)\<close>, then
  \<^verbatim>\<open>self._check_axis([axis])\<close>, which ends with \<^verbatim>\<open>self._axes = [axis]\<close>.
\<close>

definition append_axis :: "AxesManager \<Rightarrow> Axis \<Rightarrow> error + AxesManager" where
  "append_axis self axis = check_axis (self\<lparr>am_axes := am_axes self @ [axis]\<rparr>) [axis]"

text \<open>
  The loop of the \<^verbatim>\<open>nav_indexes\<close> setter: \<^verbatim>\<open>valid\<close> turns False at the first index
  that is not the index of a declared axis.
\<close>

fun nav_indexes_valid :: "AxesManager \<Rightarrow> int list \<Rightarrow> bool" where
  "nav_indexes_valid self [] = True"
| "nav_indexes_valid self (index # rest) =
     (if index \<notin> set (map int (get_axes_index self)) then False
      else nav_indexes_valid self rest)"

text \<open>
  The loop of the \<^verbatim>\<open>sig_indexes\<close> setter: an index that is a navigation index, or not the
  index of a declared axis, makes the tuple invalid. Membership in a None
  \<^verbatim>\<open>_nav_indexes\<close> raises TypeError.
\<close>

fun sig_indexes_valid :: "AxesManager \<Rightarrow> int list \<Rightarrow> error + bool" where
  "sig_indexes_valid self [] = Inr True"
| "sig_indexes_valid self (index # rest) =
     (case am_nav_indexes self of
        None \<Rightarrow> Inl TypeError
      | Some nav \<Rightarrow>
          if index \<in> set nav then Inr False
          else if index \<notin> set (map int (get_axes_index self)) then Inr False
          else sig_indexes_valid self rest)"

definition set_sig_indexes :: "AxesManager \<Rightarrow> int list \<Rightarrow> error + AxesManager" where
  "set_sig_indexes self sig_indexes =
     (case sig_indexes_valid self sig_indexes of
        Inl e \<Rightarrow> Inl e
      | Inr valid \<Rightarrow> Inr (if valid then self\<lparr>am_sig_indexes := sig_indexes\<rparr> else self))"

text \<open>
  The \<^verbatim>\<open>nav_indexes\<close> setter, for an iterable argument: the tuple is stored when valid,
  and in both cases \<^verbatim>\<open>self.sig_indexes = self.compute_sig_indexes()\<close> follows.
\<close>

definition set_nav_indexes :: "AxesManager \<Rightarrow> int list \<Rightarrow> error + AxesManager" where
  "set_nav_indexes self nav_indexes =
     (let self' = (if nav_indexes_valid self nav_indexes
                   then self\<lparr>am_nav_indexes := Some nav_indexes\<rparr> else self)
      in case compute_sig_indexes self' of
           Inl e \<Rightarrow> Inl e
         | Inr s \<Rightarrow> set_sig_indexes self' s)"

section \<open>DataBase\<close>

datatype DataDim = Data0D | Data1D | Data2D | DataND

datatype DataSource = raw | calculated

datatype DataDistribution = uniform | spread

text \<open>
  A numpy array: its shape and its elements in row-major order. \<^verbatim>\<open>arr.size\<close> is the
  product of the shape.
\<close>

record ndarray =
  nd_shape :: "nat list"
  nd_values :: "npfloat list"

definition nd_size :: "ndarray \<Rightarrow> nat" where
  "nd_size arr = prod_list (nd_shape arr)"

text \<open>
  \<^verbatim>\<open>np.allclose(a, b)\<close> on two arrays of the same shape: the elements are close pairwise.
\<close>

definition allclose :: "ndarray \<Rightarrow> ndarray \<Rightarrow> bool" where
  "allclose a b = list_all2 isclose (nd_values a) (nd_values b)"

text \<open>
  The attributes of \<^verbatim>\<open>class DataBase\<close>: \<^verbatim>\<open>_name\<close>, \<^verbatim>\<open>origin\<close> (None when
  unset), \<^verbatim>\<open>_source\<close>, \<^verbatim>\<open>_distribution\<close>, \<^verbatim>\<open>_dim\<close>, \<^verbatim>\<open>_shape\<close>,
  \<^verbatim>\<open>_size\<close>, \<^verbatim>\<open>_length\<close>, \<^verbatim>\<open>_data\<close> and \<^verbatim>\<open>_labels\<close>. The timestamp and the
  iteration counter take no part in what follows.
\<close>

record DataBase =
  db_name :: string
  db_origin :: "string option"
  db_source :: DataSource
  db_distribution :: DataDistribution
  db_dim :: DataDim
  db_shape :: "nat list"
  db_size :: nat
  db_length :: nat
  db_data :: "ndarray list"
  db_labels :: "string list"

text \<open>
  What a caller can pass as \<^verbatim>\<open>data\<close>: None, a list of arrays, a bare array, a bare
  number, or an object of another type.
\<close>

datatype data_arg =
    DataNone
  | DataList "ndarray list"
  | DataArray ndarray
  | DataNumber npfloat
  | DataOther

text \<open>
  \<^verbatim>\<open>_check_data_type(data)\<close>: a bare array or number is wrapped in a list; the first
  element of the list must be an array of at least one dimension. On the empty list
  \<^verbatim>\<open>data[0]\<close> raises IndexError before the TypeError is reached.
\<close>

definition check_data_type :: "data_arg \<Rightarrow> error + ndarray list" where
  "check_data_type data =
     (case data of
        DataNone \<Rightarrow> Inl TypeError
      | DataOther \<Rightarrow> Inl TypeError
      | DataArray arr \<Rightarrow> if length (nd_shape arr) = 0 then Inl TypeError else Inr [arr]
      | DataNumber x \<Rightarrow> Inr [\<lparr>nd_shape = [1], nd_values = [x]\<rparr>]
      | DataList [] \<Rightarrow> Inl IndexError
      | DataList (arr # arrs) \<Rightarrow>
          if length (nd_shape arr) = 0 then Inl TypeError else Inr (arr # arrs))"

text \<open>
  \<^verbatim>\<open>get_dim_from_data(data)\<close>: stores the shape and size of \<^verbatim>\<open>data[0]\<close> (IndexError
  on the empty list) and the length of the list, and returns the dimensionality.
\<close>

definition dim_from_shape :: "nat list \<Rightarrow> nat \<Rightarrow> DataDim" where
  "dim_from_shape shape sz =
     (if length shape = 1 \<and> sz = 1 then Data0D
      else if length shape = 1 \<and> sz > 1 then Data1D
      else if length shape = 2 then Data2D
      else DataND)"

definition get_dim_from_data ::
  "'a DataBase_scheme \<Rightarrow> ndarray list \<Rightarrow> error + ('a DataBase_scheme \<times> DataDim)" where
  "get_dim_from_data self data =
     (case data of
        [] \<Rightarrow> Inl IndexError
      | arr # _ \<Rightarrow>
          (let self' = self\<lparr>db_shape := nd_shape arr, db_size := nd_size arr,
                            db_length := length data\<rparr>
           in Inr (self', dim_from_shape (db_shape self') (db_size self'))))"

text \<open>
  \<^verbatim>\<open>_check_shape_dim_consistency(data)\<close>: whatever \<^verbatim>\<open>dim\<close> the caller gave, the
  dimensionality derived from the data is stored.
\<close>

definition check_shape_dim_consistency ::
  "'a DataBase_scheme \<Rightarrow> DataDim option \<Rightarrow> ndarray list \<Rightarrow> error + 'a DataBase_scheme" where
  "check_shape_dim_consistency self dim0 data =
     (case get_dim_from_data self data of
        Inl e \<Rightarrow> Inl e
      | Inr (self', derived) \<Rightarrow>
          (case dim0 of
             None \<Rightarrow> Inr (self'\<lparr>db_dim := derived\<rparr>)
           | Some d \<Rightarrow>
               if d \<noteq> derived then Inr (self'\<lparr>db_dim := derived\<rparr>)
               else Inr (self'\<lparr>db_dim := d\<rparr>)))"

text \<open>\<^verbatim>\<open>_check_same_shape(data)\<close>: DataShapeError at the first array of another shape.\<close>

fun check_same_shape :: "nat list \<Rightarrow> ndarray list \<Rightarrow> error + unit" where
  "check_same_shape shape [] = Inr ()"
| "check_same_shape shape (dat # data) =
     (if nd_shape dat \<noteq> shape then Inl DataShapeError else check_same_shape shape data)"

text \<open>
  The \<^verbatim>\<open>data\<close> setter. \<open>dim0\<close> is the value of \<^verbatim>\<open>_dim\<close> before the call (None when
  the constructor got no \<^verbatim>\<open>dim\<close>).
\<close>

definition DataBase_set_data ::
  "'a DataBase_scheme \<Rightarrow> DataDim option \<Rightarrow> data_arg \<Rightarrow> error + 'a DataBase_scheme" where
  "DataBase_set_data self dim0 data0 =
     (case check_data_type data0 of
        Inl e \<Rightarrow> Inl e
      | Inr data \<Rightarrow>
          (case check_shape_dim_consistency self dim0 data of
             Inl e \<Rightarrow> Inl e
           | Inr self' \<Rightarrow>
               (case check_same_shape (db_shape self') data of
                  Inl e \<Rightarrow> Inl e
                | Inr _ \<Rightarrow> Inr (self'\<lparr>db_data := data\<rparr>))))"

text \<open>The label \<^verbatim>\<open>f'CH{n:02d}'\<close>: the decimal digits of \<open>n\<close>, at least two.\<close>

fun decimal :: "nat \<Rightarrow> string" where
  "decimal n =
     (if n < 10 then [''0123456789'' ! n]
      else decimal (n div 10) @ [''0123456789'' ! (n mod 10)])"

declare decimal.simps [simp del]

definition channel_label :: "nat \<Rightarrow> string" where
  "channel_label n = ''CH'' @ (if n < 10 then ''0'' else []) @ decimal n"

text \<open>
  \<^verbatim>\<open>_check_labels(labels)\<close>: while there are fewer labels than arrays, the label of the
  next channel is appended.
\<close>

function check_labels :: "'a DataBase_scheme \<Rightarrow> string list \<Rightarrow> 'a DataBase_scheme" where
  "check_labels self labels =
     (if length labels < db_length self
      then check_labels self (labels @ [channel_label (length labels)])
      else self\<lparr>db_labels := labels\<rparr>)"
  by pat_completeness auto
termination
  by (relation "measure (\<lambda>(self, labels). db_length self - length labels)") auto

declare check_labels.simps [simp del]

text \<open>
  \<^verbatim>\<open>DataBase.__init__(name, source, dim, distribution, data, labels, origin)\<close>, without
  extra keyword attributes. \<^verbatim>\<open>source\<close> and \<^verbatim>\<open>distribution\<close> are members of their
  enumerations (\<^verbatim>\<open>enum_checker\<close> returns such a member as it is).
\<close>

definition DataBase_init ::
  "string \<Rightarrow> DataSource \<Rightarrow> DataDim option \<Rightarrow> DataDistribution \<Rightarrow> data_arg \<Rightarrow> string list
     \<Rightarrow> string option \<Rightarrow> error + DataBase" where
  "DataBase_init name source dim0 distribution data labels origin =
     (case DataBase_set_data
             \<lparr>db_name = name, db_origin = origin, db_source = source,
              db_distribution = distribution, db_dim = DataND, db_shape = [], db_size = 0,
              db_length = 0, db_data = [], db_labels = []\<rparr> dim0 data of
        Inl e \<Rightarrow> Inl e
      | Inr self \<Rightarrow> Inr (check_labels self labels))"

text \<open>
  \<^verbatim>\<open>__getitem__(item)\<close> for an index of the loop \<^verbatim>\<open>range(len(self))\<close>: IndexError
  outside \<^verbatim>\<open>_length\<close>, and from the list when it is shorter than \<^verbatim>\<open>_length\<close>.
\<close>

definition DataBase_getitem :: "'a DataBase_scheme \<Rightarrow> nat \<Rightarrow> error + ndarray" where
  "DataBase_getitem self item =
     (if item < db_length self
      then (if item < length (db_data self) then Inr (db_data self ! item) else Inl IndexError)
      else Inl IndexError)"

text \<open>
  The loop of \<^verbatim>\<open>__eq__\<close> over \<^verbatim>\<open>range(len(self))\<close>: a pair of arrays of different
  shapes ends it with False.
\<close>

fun eq_loop ::
  "'a DataBase_scheme \<Rightarrow> 'b DataBase_scheme \<Rightarrow> nat list \<Rightarrow> bool \<Rightarrow> error + bool" where
  "eq_loop self other [] eq = Inr eq"
| "eq_loop self other (ind # inds) eq =
     (case DataBase_getitem self ind of
        Inl e \<Rightarrow> Inl e
      | Inr a \<Rightarrow>
          (case DataBase_getitem other ind of
             Inl e \<Rightarrow> Inl e
           | Inr b \<Rightarrow>
               if nd_shape a \<noteq> nd_shape b then Inr False
               else eq_loop self other inds (eq \<and> allclose a b)))"

text \<open>
  \<^verbatim>\<open>DataBase.__eq__(other)\<close> for another DataBase: same name, same length, and arrays
  of the same shape that are close. The origin takes no part.
\<close>

definition DataBase_eq :: "'a DataBase_scheme \<Rightarrow> 'b DataBase_scheme \<Rightarrow> error + bool" where
  "DataBase_eq self other =
     (if \<not> (db_name self = db_name other \<and> db_length self = db_length other) then Inr False
      else eq_loop self other [0..<db_length self] True)"

subsection \<open>Arithmetic\<close>

text \<open>
  Elementwise numpy arithmetic \<^verbatim>\<open>x + y\<close> and \<^verbatim>\<open>x - y\<close> on two arrays whose values fill
  their shapes. Arrays of one shape are combined element by element. Arrays of different
  shapes are broadcast: the shorter shape is padded with leading ones, a dimension of size
  one is stretched to the size of the other array, and shapes that cannot be matched raise
  ValueError. \<open>unravel\<close> and \<open>ravel\<close> convert between a position in row-major order and
  a multi-index.
\<close>

fun unravel :: "nat list \<Rightarrow> nat \<Rightarrow> nat list" where
  "unravel [] k = []"
| "unravel (n # ns) k = (k div prod_list ns) # unravel ns (k mod prod_list ns)"

fun ravel :: "nat list \<Rightarrow> nat list \<Rightarrow> nat" where
  "ravel (n # ns) (i # js) = i * prod_list ns + ravel ns js"
| "ravel _ _ = 0"

definition pad_shape :: "nat \<Rightarrow> nat list \<Rightarrow> nat list" where
  "pad_shape r shape = replicate (r - length shape) 1 @ shape"

definition broadcast_shapes :: "nat list \<Rightarrow> nat list \<Rightarrow> error + nat list" where
  "broadcast_shapes sx sy =
     (let r = max (length sx) (length sy);
          px = pad_shape r sx;
          py = pad_shape r sy
      in if list_all2 (\<lambda>n m. n = m \<or> n = 1 \<or> m = 1) px py
         then Inr (map2 (\<lambda>n m. if n = 1 then m else n) px py)
         else Inl ValueError)"

definition broadcast_pos :: "nat list \<Rightarrow> nat list \<Rightarrow> nat \<Rightarrow> nat" where
  \<comment> \<open>the position, in an array of (padded) shape \<open>ps\<close>, of the element that lands at
      position \<open>k\<close> of the result of shape \<open>rs\<close>\<close>
  "broadcast_pos ps rs k = ravel ps (map2 (\<lambda>d n. if n = 1 then 0 else d) (unravel rs k) ps)"

definition np_binop ::
  "(npfloat \<Rightarrow> npfloat \<Rightarrow> npfloat) \<Rightarrow> ndarray \<Rightarrow> ndarray \<Rightarrow> error + ndarray" where
  "np_binop f x y =
     (if nd_shape x = nd_shape y
      then Inr \<lparr>nd_shape = nd_shape x, nd_values = map2 f (nd_values x) (nd_values y)\<rparr>
      else (case broadcast_shapes (nd_shape x) (nd_shape y) of
              Inl e \<Rightarrow> Inl e
            | Inr rs \<Rightarrow>
                (let r = length rs;
                     px = pad_shape r (nd_shape x);
                     py = pad_shape r (nd_shape y)
                 in Inr \<lparr>nd_shape = rs,
                         nd_values =
                           map (\<lambda>k. f (nd_values x ! broadcast_pos px rs k)
                                      (nd_values y ! broadcast_pos py rs k))
                             [0..<prod_list rs]\<rparr>)))"






section \<open>DataWithAxes\<close>

text \<open>\<^verbatim>\<open>class DataWithAxes(DataBase)\<close>: a DataBase with an \<^verbatim>\<open>axes_manager\<close>.\<close>

record DataWithAxes = DataBase +
  dwa_axes_manager :: AxesManager

text \<open>
  \<^verbatim>\<open>get_dim_from_data_axes()\<close>: navigation indexes force the dimensionality DataND.
  \<^verbatim>\<open>len\<close> of a None \<^verbatim>\<open>nav_indexes\<close> raises TypeError.
\<close>

definition get_dim_from_data_axes :: "DataWithAxes \<Rightarrow> error + DataWithAxes" where
  "get_dim_from_data_axes self =
     (case am_nav_indexes (dwa_axes_manager self) of
        None \<Rightarrow> Inl TypeError
      | Some nav \<Rightarrow> Inr (if length nav > 0 then self\<lparr>db_dim := DataND\<rparr> else self))"

text \<open>
  \<^verbatim>\<open>DataWithAxes.__init__\<close>: the constructor of DataBase, then the axes manager over the
  shape of the data, then \<^verbatim>\<open>get_dim_from_data_axes\<close>.
\<close>

definition DataWithAxes_init ::
  "string \<Rightarrow> DataSource \<Rightarrow> DataDim option \<Rightarrow> DataDistribution \<Rightarrow> data_arg \<Rightarrow> string list
     \<Rightarrow> string option \<Rightarrow> Axis list \<Rightarrow> int list option \<Rightarrow> named_axes
     \<Rightarrow> error + DataWithAxes" where
  "DataWithAxes_init name source dim0 distribution data labels origin axes nav_indexes kwargs =
     (case DataBase_init name source dim0 distribution data labels origin of
        Inl e \<Rightarrow> Inl e
      | Inr base \<Rightarrow>
          (case AxesManager_init (db_shape base) axes nav_indexes None kwargs of
             Inl e \<Rightarrow> Inl e
           | Inr am \<Rightarrow>
               get_dim_from_data_axes
                 \<lparr>db_name = db_name base, db_origin = db_origin base,
                  db_source = db_source base, db_distribution = db_distribution base,
                  db_dim = db_dim base, db_shape = db_shape base, db_size = db_size base,
                  db_length = db_length base, db_data = db_data base,
                  db_labels = db_labels base, dwa_axes_manager = am\<rparr>))"

section \<open>DataToExport\<close>

text \<open>
  Modelled from the spec: \<^verbatim>\<open>find_objects_in_list_from_attr_name_val\<close> of
  \<^verbatim>\<open>pymodaq.utils.daq_utils\<close> is called by the lookups of DataToExport and is not among
  the sources. The specification calls the lookups pure read filters by name and origin,
  and the callers take from it, with \<^verbatim>\<open>return_first=True\<close>, the pair of the first object
  whose attribute has the value and its index (None when there is none), and with
  \<^verbatim>\<open>return_first=False\<close> the list of all such pairs in order. \<open>ind\<close> is the index of the
  head of the list.
\<close>

fun find_objects_first :: "('a \<Rightarrow> 'v) \<Rightarrow> 'v \<Rightarrow> 'a list \<Rightarrow> nat \<Rightarrow> ('a \<times> nat) option" where
  "find_objects_first attr val [] ind = None"
| "find_objects_first attr val (obj # objects) ind =
     (if attr obj = val then Some (obj, ind)
      else find_objects_first attr val objects (Suc ind))"

fun find_objects_all :: "('a \<Rightarrow> 'v) \<Rightarrow> 'v \<Rightarrow> 'a list \<Rightarrow> nat \<Rightarrow> ('a \<times> nat) list" where
  "find_objects_all attr val [] ind = []"
| "find_objects_all attr val (obj # objects) ind =
     (if attr obj = val then (obj, ind) # find_objects_all attr val objects (Suc ind)
      else find_objects_all attr val objects (Suc ind))"

text \<open>The attributes of \<^verbatim>\<open>class DataToExport\<close>: \<^verbatim>\<open>_name\<close> and \<^verbatim>\<open>_data\<close>.\<close>

record DataToExport =
  dte_name :: string
  dte_data :: "DataWithAxes list"

text \<open>
  \<^verbatim>\<open>affect_name_to_origin_if_none()\<close>: every member without origin gets the name of
  the container as origin.
\<close>

definition affect_name_to_origin_if_none :: "DataToExport \<Rightarrow> DataToExport" where
  "affect_name_to_origin_if_none self =
     self\<lparr>dte_data :=
       map (\<lambda>dat. if db_origin dat = None then dat\<lparr>db_origin := Some (dte_name self)\<rparr> else dat)
         (dte_data self)\<rparr>"

text \<open>The \<^verbatim>\<open>data\<close> setter: stores the members, then gives the unset origins.\<close>

definition DataToExport_set_data :: "DataToExport \<Rightarrow> DataWithAxes list \<Rightarrow> DataToExport" where
  "DataToExport_set_data self new_data =
     affect_name_to_origin_if_none (self\<lparr>dte_data := new_data\<rparr>)"

definition DataToExport_init :: "string \<Rightarrow> DataWithAxes list \<Rightarrow> DataToExport" where
  "DataToExport_init name data =
     DataToExport_set_data \<lparr>dte_name = name, dte_data = []\<rparr> data"

text \<open>
  \<^verbatim>\<open>get_data_from_name_origin(name, origin)\<close>. The method returns a reference to a
  member of \<^verbatim>\<open>self.data\<close> or None; the model returns the position of that member. With
  a None origin the first member of that name is returned; otherwise the members of that
  name are selected and the first of them with that origin is returned.
\<close>

definition get_data_from_name_origin ::
  "DataToExport \<Rightarrow> string \<Rightarrow> string option \<Rightarrow> nat option" where
  "get_data_from_name_origin self name origin =
     (case origin of
        None \<Rightarrow> map_option snd (find_objects_first db_name name (dte_data self) 0)
      | Some _ \<Rightarrow>
          (let selection = find_objects_all db_name name (dte_data self) 0
           in map_option (\<lambda>(_, k). snd (selection ! k))
                (find_objects_first db_origin origin (map fst selection) 0)))"

text \<open>
  \<^verbatim>\<open>self.data.index(obj)\<close> for the member \<^verbatim>\<open>obj\<close> at position \<open>p\<close>: the index of the
  first element that is \<^verbatim>\<open>obj\<close> itself or equal to it by \<^verbatim>\<open>__eq__\<close>; ValueError when
  there is none. \<open>i\<close> is the index of the head of the list.
\<close>

fun list_index :: "DataWithAxes list \<Rightarrow> nat \<Rightarrow> nat \<Rightarrow> DataWithAxes \<Rightarrow> error + nat" where
  "list_index [] i p obj = Inl ValueError"
| "list_index (el # rest) i p obj =
     (if i = p then Inr i
      else (case DataBase_eq el obj of
              Inl e \<Rightarrow> Inl e
            | Inr b \<Rightarrow> if b then Inr i else list_index rest (Suc i) p obj))"

text \<open>\<^verbatim>\<open>list.pop(q)\<close> for an index inside the list.\<close>

definition list_pop :: "'a list \<Rightarrow> nat \<Rightarrow> 'a list" where
  "list_pop xs q = take q xs @ drop (Suc q) xs"

text \<open>
  \<^verbatim>\<open>append(data)\<close> for one DataWithAxes: a deep copy of \<^verbatim>\<open>data\<close> is appended, after
  the member that \<^verbatim>\<open>self.data.index(obj)\<close> designates is popped when the lookup by name
  and origin found a member \<^verbatim>\<open>obj\<close>.
\<close>

definition DataToExport_append :: "DataToExport \<Rightarrow> DataWithAxes \<Rightarrow> error + DataToExport" where
  "DataToExport_append self data =
     (case get_data_from_name_origin self (db_name data) (db_origin data) of
        None \<Rightarrow> Inr (self\<lparr>dte_data := dte_data self @ [data]\<rparr>)
      | Some p \<Rightarrow>
          (case list_index (dte_data self) 0 p (dte_data self ! p) of
             Inl e \<Rightarrow> Inl e
           | Inr q \<Rightarrow> Inr (self\<lparr>dte_data := list_pop (dte_data self) q @ [data]\<rparr>)))"

text \<open>\<^verbatim>\<open>append(data)\<close> for a list of DataWithAxes: one append per element.\<close>

fun DataToExport_append_list ::
  "DataToExport \<Rightarrow> DataWithAxes list \<Rightarrow> error + DataToExport" where
  "DataToExport_append_list self [] = Inr self"
| "DataToExport_append_list self (dat # data) =
     (case DataToExport_append self dat of
        Inl e \<Rightarrow> Inl e
      | Inr self' \<Rightarrow> DataToExport_append_list self' data)"

text \<open>
  Shorthands for the examples: a construction without the keyword axes, and the compact
  axis with offset 0 and scaling 1 that \<^verbatim>\<open>Axis('x', 's', data=np.linspace(0, n-1, n),
  index=index)\<close> builds for \<open>n \<ge> 2\<close>.
\<close>

abbreviation no_named :: named_axes where
  "no_named \<equiv> \<lparr>x_axis = None, y_axis = None, nav_x_axis = None, nav_y_axis = None\<rparr>"

abbreviation unit_axis :: "nat \<Rightarrow> nat \<Rightarrow> Axis" where
  "unit_axis index n \<equiv> \<lparr>ax_label = ''x'', ax_units = ''s'', ax_data = None, ax_index = index,
      ax_scaling = Some (Fl 1), ax_offset = Some (Fl 0), ax_size = n\<rparr>"

text \<open>
  The object that \<^verbatim>\<open>DataWithAxes(name, source='raw', data=[np.array([v])],
  origin=origin)\<close> builds.
\<close>

abbreviation scalar_data :: "string \<Rightarrow> string option \<Rightarrow> real \<Rightarrow> DataWithAxes" where
  "scalar_data name origin v \<equiv>
     \<lparr>db_name = name, db_origin = origin, db_source = raw, db_distribution = uniform,
      db_dim = Data0D, db_shape = [1], db_size = 1, db_length = 1,
      db_data = [\<lparr>nd_shape = [1], nd_values = [Fl v]\<rparr>], db_labels = [''CH00''],
      dwa_axes_manager = \<lparr>am_data_shape = [1], am_axes = [], am_nav_indexes = Some [],
                           am_sig_indexes = [0]\<rparr>\<rparr>"

section \<open>Properties of Axis\<close>

text \<open>
  C1. The specification says that \<^verbatim>\<open>get_data()\<close> on a compact axis returns the sequence
  \<open>offset + scaling * i\<close> and leaves the axis compact. The code returns the result of
  \<^verbatim>\<open>create_linear_data\<close>, which has no return statement and stores the array in the
  axis. On the axis built from the linear data \<open>0, 1, 2\<close> (compact, offset 0, scaling 1,
  size 3) the call returns None, and the axis afterwards holds the explicit array
  \<open>0, 1, 2\<close>.
\<close>

theorem get_data_compact_returns_None:
  "Axis_init ''x'' ''s'' (Some [Fl 0, Fl 1, Fl 2]) 0 None None =
     Inr \<lparr>ax_label = ''x'', ax_units = ''s'', ax_data = None, ax_index = 0,
          ax_scaling = Some (Fl 1), ax_offset = Some (Fl 0), ax_size = 3\<rparr>
   \<and> get_data \<lparr>ax_label = ''x'', ax_units = ''s'', ax_data = None, ax_index = 0,
          ax_scaling = Some (Fl 1), ax_offset = Some (Fl 0), ax_size = 3\<rparr> =
     Inr (None,
          \<lparr>ax_label = ''x'', ax_units = ''s'', ax_data = Some [Fl 0, Fl 1, Fl 2], ax_index = 0,
           ax_scaling = Some (Fl 1), ax_offset = Some (Fl 0), ax_size = 3\<rparr>)"
  by (simp add: Axis_init_def Axis_set_data_def get_scale_offset_from_data_def
      is_axis_linear_def allclose_scalar_def np_mean_def get_data_def create_linear_data_def
      linspace0_def upt_rec)

text \<open>
  C7. The specification says that on a compact axis \<^verbatim>\<open>mean()\<close>, \<^verbatim>\<open>min()\<close> and
  \<^verbatim>\<open>max()\<close> equal the mean, minimum and maximum of the sequence
  \<open>offset + scaling * i\<close>, \<open>i = 0..size-1\<close>. The closed forms of the code use \<open>size\<close>
  where the last element has \<open>size - 1\<close>. On the compact axis with offset 0, scaling 1 and
  size 2 (the sequence \<open>0, 1\<close>), \<^verbatim>\<open>mean()\<close> is 1 and \<^verbatim>\<open>max()\<close> is 2; with
  scaling -1 (the sequence \<open>0, -1\<close>), \<^verbatim>\<open>min()\<close> is -2. On the same sequences stored
  explicitly (the result of \<^verbatim>\<open>create_linear_data(2)\<close>), the numpy branch of the same
  methods gives 1/2, 1 and -1.
\<close>

theorem compact_mean_min_max_off_by_one:
  "Axis_mean \<lparr>ax_label = ''x'', ax_units = ''s'', ax_data = None, ax_index = 0,
        ax_scaling = Some (Fl 1), ax_offset = Some (Fl 0), ax_size = 2\<rparr> = Inr (Fl 1)
   \<and> Axis_max \<lparr>ax_label = ''x'', ax_units = ''s'', ax_data = None, ax_index = 0,
        ax_scaling = Some (Fl 1), ax_offset = Some (Fl 0), ax_size = 2\<rparr> = Inr (Fl 2)
   \<and> Axis_min \<lparr>ax_label = ''x'', ax_units = ''s'', ax_data = None, ax_index = 0,
        ax_scaling = Some (Fl (- 1)), ax_offset = Some (Fl 0), ax_size = 2\<rparr> = Inr (Fl (- 2))
   \<and> create_linear_data \<lparr>ax_label = ''x'', ax_units = ''s'', ax_data = None, ax_index = 0,
        ax_scaling = Some (Fl 1), ax_offset = Some (Fl 0), ax_size = 2\<rparr> 2 =
       Inr \<lparr>ax_label = ''x'', ax_units = ''s'', ax_data = Some [Fl 0, Fl 1], ax_index = 0,
            ax_scaling = Some (Fl 1), ax_offset = Some (Fl 0), ax_size = 2\<rparr>
   \<and> Axis_mean \<lparr>ax_label = ''x'', ax_units = ''s'', ax_data = Some [Fl 0, Fl 1], ax_index = 0,
        ax_scaling = Some (Fl 1), ax_offset = Some (Fl 0), ax_size = 2\<rparr> = Inr (Fl (1 / 2))
   \<and> Axis_max \<lparr>ax_label = ''x'', ax_units = ''s'', ax_data = Some [Fl 0, Fl 1], ax_index = 0,
        ax_scaling = Some (Fl 1), ax_offset = Some (Fl 0), ax_size = 2\<rparr> = Inr (Fl 1)
   \<and> create_linear_data \<lparr>ax_label = ''x'', ax_units = ''s'', ax_data = None, ax_index = 0,
        ax_scaling = Some (Fl (- 1)), ax_offset = Some (Fl 0), ax_size = 2\<rparr> 2 =
       Inr \<lparr>ax_label = ''x'', ax_units = ''s'', ax_data = Some [Fl 0, Fl (- 1)], ax_index = 0,
            ax_scaling = Some (Fl (- 1)), ax_offset = Some (Fl 0), ax_size = 2\<rparr>
   \<and> Axis_min \<lparr>ax_label = ''x'', ax_units = ''s'', ax_data = Some [Fl 0, Fl (- 1)],
        ax_index = 0, ax_scaling = Some (Fl (- 1)), ax_offset = Some (Fl 0), ax_size = 2\<rparr> =
       Inr (Fl (- 1))"
  by (simp add: Axis_mean_def Axis_max_def Axis_min_def create_linear_data_def
      Axis_set_data_def linspace0_def upt_rec np_mean_def np_max_def np_min_def)

text \<open>
  C10. For every axis \<open>a\<close> and every operand \<open>x\<close> that is not a \<^verbatim>\<open>numbers.Real\<close>,
  \<^verbatim>\<open>a * x\<close> and \<^verbatim>\<open>a + x\<close> raise nothing and return None, and \<open>a\<close> is unchanged.
\<close>

theorem Axis_mul_add_non_real_returns_None:
  assumes "\<not> isinstance_Real x"
  shows "Axis_mul a x = (Inr None, a) \<and> Axis_add a x = (Inr None, a)"
  using assms by (simp add: Axis_mul_def Axis_add_def)

theorem Axis_mul_add_non_real_returns_None_witness:
  "\<not> isinstance_Real (PyStr ''abc'')
   \<and> Axis_mul \<lparr>ax_label = ''x'', ax_units = ''s'', ax_data = Some [Fl 0, Fl 1, Fl 4],
        ax_index = 0, ax_scaling = None, ax_offset = None, ax_size = 3\<rparr> (PyStr ''abc'') =
       (Inr None,
        \<lparr>ax_label = ''x'', ax_units = ''s'', ax_data = Some [Fl 0, Fl 1, Fl 4],
         ax_index = 0, ax_scaling = None, ax_offset = None, ax_size = 3\<rparr>)
   \<and> Axis_add \<lparr>ax_label = ''x'', ax_units = ''s'', ax_data = Some [Fl 0, Fl 1, Fl 4],
        ax_index = 0, ax_scaling = None, ax_offset = None, ax_size = 3\<rparr> (PyStr ''abc'') =
       (Inr None,
        \<lparr>ax_label = ''x'', ax_units = ''s'', ax_data = Some [Fl 0, Fl 1, Fl 4],
         ax_index = 0, ax_scaling = None, ax_offset = None, ax_size = 3\<rparr>)"
  using Axis_mul_add_non_real_returns_None
    [of "PyStr ''abc''"
        "\<lparr>ax_label = ''x'', ax_units = ''s'', ax_data = Some [Fl 0, Fl 1, Fl 4],
          ax_index = 0, ax_scaling = None, ax_offset = None, ax_size = 3\<rparr>"]
  by simp

section \<open>Properties of AxesManager\<close>

subsection \<open>Auxiliary facts\<close>

lemma check_axis_step_Inr:
  assumes "check_axis_step self a = Inr a'"
  shows "ax_index a < length (am_data_shape self)"
    and "a' = (if am_data_shape self ! ax_index a = ax_size a then a
               else (Axis_set_size a (am_data_shape self ! ax_index a))
                      \<lparr>ax_scaling := Some (Fl 1), ax_offset := Some (Fl 0)\<rparr>)"
  using assms
  by (auto simp: check_axis_step_def get_shape_from_index_def split: if_splits)

lemma check_axis_step_Inl:
  "check_axis_step self a = Inl e \<Longrightarrow> e = IndexError \<and> length (am_data_shape self) \<le> ax_index a"
  by (auto simp: check_axis_step_def get_shape_from_index_def split: if_splits)

lemma check_axis_step_total:
  "ax_index a < length (am_data_shape self) \<Longrightarrow> \<exists>a'. check_axis_step self a = Inr a'"
  by (auto simp: check_axis_step_def get_shape_from_index_def)

lemma check_axis_loop_Inr:
  "check_axis_loop self axes = Inr axes' \<Longrightarrow>
     list_all2 (\<lambda>a a'. check_axis_step self a = Inr a') axes axes'"
  by (induction axes arbitrary: axes') (auto split: sum.splits)

lemma check_axis_loop_Inl:
  "check_axis_loop self axes = Inl e \<Longrightarrow>
     e = IndexError \<and> (\<exists>a\<in>set axes. length (am_data_shape self) \<le> ax_index a)"
  by (induction axes) (auto split: sum.splits dest: check_axis_step_Inl)

lemma check_axis_loop_total:
  "\<forall>a\<in>set axes. ax_index a < length (am_data_shape self) \<Longrightarrow>
     \<exists>axes'. check_axis_loop self axes = Inr axes'"
proof (induction axes)
  case Nil
  then show ?case by simp
next
  case (Cons a axes)
  then obtain a' where "check_axis_step self a = Inr a'"
    using check_axis_step_total by fastforce
  moreover from Cons obtain axes' where "check_axis_loop self axes = Inr axes'" by auto
  ultimately show ?case by simp
qed


lemma check_axis_Inr:
  assumes "check_axis self axes = Inr am"
  shows "am_data_shape am = am_data_shape self"
    and "am_nav_indexes am = am_nav_indexes self"
    and "am_sig_indexes am = am_sig_indexes self"
    and "list_all2 (\<lambda>a a'. check_axis_step self a = Inr a') axes (am_axes am)"
  using assms by (auto simp: check_axis_def split: sum.splits dest: check_axis_loop_Inr)

lemma check_axis_step_fits:
  assumes "check_axis_step self a = Inr a'" and "ax_data a' = None"
  shows "ax_index a' < length (am_data_shape self)
         \<and> ax_size a' = am_data_shape self ! ax_index a'"
  using assms
  by (auto simp: check_axis_step_def get_shape_from_index_def Axis_set_size_def
      split: if_splits)

lemma check_axis_fits:
  assumes "check_axis self axes = Inr am" and "a' \<in> set (am_axes am)" and "ax_data a' = None"
  shows "ax_index a' < length (am_data_shape am)
         \<and> ax_size a' = am_data_shape am ! ax_index a'"
proof -
  from assms(1) have l: "list_all2 (\<lambda>a a'. check_axis_step self a = Inr a') axes (am_axes am)"
    and sh: "am_data_shape am = am_data_shape self"
    by (rule check_axis_Inr)+
  from l assms(2) obtain a where "check_axis_step self a = Inr a'"
    by (auto simp: in_set_conv_nth list_all2_conv_all_nth)
  with assms(3) sh show ?thesis using check_axis_step_fits by simp
qed

lemma append_named_Inr:
  "append_named self named index = Inr self' \<Longrightarrow>
     am_data_shape self' = am_data_shape self \<and> am_nav_indexes self' = am_nav_indexes self
     \<and> am_sig_indexes self' = am_sig_indexes self"
  by (auto simp: append_named_def split: sum.splits)

lemma manage_x_axis_Inr:
  "manage_x_axis st x = Inr st' \<Longrightarrow>
     am_data_shape (fst st') = am_data_shape (fst st)
     \<and> am_nav_indexes (fst st') = am_nav_indexes (fst st)
     \<and> (snd st' \<or> st' = st)"
  by (auto simp: manage_x_axis_def split: option.splits sum.splits dest: append_named_Inr)

lemma manage_y_axis_Inr:
  "manage_y_axis st y = Inr st' \<Longrightarrow>
     am_data_shape (fst st') = am_data_shape (fst st)
     \<and> am_nav_indexes (fst st') = am_nav_indexes (fst st)
     \<and> (snd st' \<or> st' = st)"
  by (auto simp: manage_y_axis_def split: option.splits sum.splits if_splits
      dest: append_named_Inr)

lemma manage_nav_axis_Inr:
  "manage_nav_axis k st nv = Inr st' \<Longrightarrow>
     am_data_shape (fst st') = am_data_shape (fst st)
     \<and> am_nav_indexes (fst st') = am_nav_indexes (fst st)
     \<and> (snd st' \<or> st' = st)"
  by (auto simp: manage_nav_axis_def Let_def split: option.splits sum.splits if_splits
      dest: append_named_Inr)

lemma manage_named_axes_Inr:
  assumes "manage_named_axes self kwargs = Inr am"
  shows "am = self \<or>
         (\<exists>s. check_axis s (am_axes s) = Inr am \<and> am_data_shape s = am_data_shape self
              \<and> am_nav_indexes s = am_nav_indexes self)"
proof -
  from assms obtain st1 st2 st3 st4 where
    1: "manage_x_axis (self, False) (x_axis kwargs) = Inr st1" and
    2: "manage_y_axis st1 (y_axis kwargs) = Inr st2" and
    3: "manage_nav_axis 0 st2 (nav_x_axis kwargs) = Inr st3" and
    4: "manage_nav_axis 1 st3 (nav_y_axis kwargs) = Inr st4" and
    5: "(if snd st4 then check_axis (fst st4) (am_axes (fst st4)) else Inr (fst st4)) = Inr am"
    by (auto simp: manage_named_axes_def split: sum.splits)
  note a = manage_x_axis_Inr[OF 1] manage_y_axis_Inr[OF 2]
    manage_nav_axis_Inr[OF 3] manage_nav_axis_Inr[OF 4]
  have sh: "am_data_shape (fst st4) = am_data_shape self"
    and nv: "am_nav_indexes (fst st4) = am_nav_indexes self"
    using a by simp_all
  show ?thesis
  proof (cases "snd st4")
    case True
    with 5 sh nv show ?thesis by auto
  next
    case False
    with a have "st4 = (self, False)"
      by (metis snd_conv)
    with 5 False show ?thesis by simp
  qed
qed


lemma AxesManager_init_Inr:
  assumes "AxesManager_init data_shape axes nav sg kwargs = Inr am"
  shows "am_data_shape am = data_shape \<and> am_nav_indexes am = nav
         \<and> (\<exists>s xs. check_axis s xs = Inr am \<and> am_data_shape s = data_shape)"
proof -
  from assms obtain s0 self' where
    c: "check_axis \<lparr>am_data_shape = data_shape, am_axes = axes, am_nav_indexes = nav,
          am_sig_indexes = s0\<rparr> axes = Inr self'"
    and m: "manage_named_axes self' kwargs = Inr am"
    by (auto simp: AxesManager_init_def Let_def split: sum.splits)
  note c1 = check_axis_Inr(1,2)[OF c]
  from manage_named_axes_Inr[OF m] show ?thesis
  proof
    assume "am = self'"
    with c c1 show ?thesis by auto
  next
    assume "\<exists>s. check_axis s (am_axes s) = Inr am \<and> am_data_shape s = am_data_shape self'
              \<and> am_nav_indexes s = am_nav_indexes self'"
    then obtain s where s: "check_axis s (am_axes s) = Inr am"
      "am_data_shape s = am_data_shape self'" "am_nav_indexes s = am_nav_indexes self'"
      by blast
    from check_axis_Inr(1,2)[OF s(1)] s c1 show ?thesis
      using s(1) by auto
  qed
qed

lemma nav_indexes_valid_iff:
  "nav_indexes_valid self xs = (\<forall>i\<in>set xs. i \<in> set (map int (get_axes_index self)))"
  by (induction xs) auto

lemma sig_indexes_valid_Some:
  "am_nav_indexes self = Some nav \<Longrightarrow>
     sig_indexes_valid self xs =
       Inr (\<forall>i\<in>set xs. i \<notin> set nav \<and> i \<in> set (map int (get_axes_index self)))"
  by (induction xs) auto

lemma pop_nav_foldl:
  "distinct indexes \<Longrightarrow>
     foldl (\<lambda>indexes index. if index \<in> set indexes then remove1 index indexes else indexes)
       indexes nav = filter (\<lambda>i. i \<notin> set nav) indexes"
proof (induction nav arbitrary: indexes)
  case Nil
  then show ?case by simp
next
  case (Cons x nav)
  have r: "(if x \<in> set indexes then remove1 x indexes else indexes) = filter (\<lambda>i. i \<noteq> x) indexes"
  proof (cases "x \<in> set indexes")
    case True
    have "removeAll x indexes = filter (\<lambda>i. i \<noteq> x) indexes"
      by (induction indexes) auto
    with True Cons.prems show ?thesis by (simp add: distinct_remove1_removeAll)
  next
    case False
    then have "filter (\<lambda>i. i \<noteq> x) indexes = indexes"
      by (induction indexes) auto
    with False show ?thesis by simp
  qed
  have "distinct (filter (\<lambda>i. i \<noteq> x) indexes)" using Cons.prems by simp
  from Cons.IH[OF this] r show ?case
    by (simp add: conj_commute del: remove1.simps)
qed

lemma compute_sig_indexes_Some:
  "am_nav_indexes self = Some nav \<Longrightarrow>
     compute_sig_indexes self =
       Inr (filter (\<lambda>i. i \<notin> set nav) (map int [0..<length (am_data_shape self)]))"
  by (simp add: compute_sig_indexes_def pop_nav_foldl distinct_map)

lemma set_nav_indexes_Some:
  assumes "am_nav_indexes am = Some old"
  shows "\<exists>am' nav' comp. set_nav_indexes am new = Inr am'
     \<and> nav' = (if \<forall>i\<in>set new. i \<in> set (map int (get_axes_index am)) then new else old)
     \<and> comp = filter (\<lambda>i. i \<notin> set nav') (map int [0..<length (am_data_shape am)])
     \<and> am_data_shape am' = am_data_shape am \<and> am_axes am' = am_axes am
     \<and> am_nav_indexes am' = Some nav'
     \<and> am_sig_indexes am' =
           (if \<forall>i\<in>set comp. i \<in> set (map int (get_axes_index am)) then comp
            else am_sig_indexes am)"
proof -
  define nav' where "nav' = (if nav_indexes_valid am new then new else old)"
  define self' where "self' = (if nav_indexes_valid am new
                   then am\<lparr>am_nav_indexes := Some new\<rparr> else am)"
  have n: "am_nav_indexes self' = Some nav'" and sh: "am_data_shape self' = am_data_shape am"
    and ax: "am_axes self' = am_axes am" and sg: "am_sig_indexes self' = am_sig_indexes am"
    using assms by (simp_all add: self'_def nav'_def)
  have gi: "get_axes_index self' = get_axes_index am"
    by (simp add: get_axes_index_def ax)
  define comp where "comp = filter (\<lambda>i. i \<notin> set nav') (map int [0..<length (am_data_shape am)])"
  have c: "compute_sig_indexes self' = Inr comp"
    using compute_sig_indexes_Some[OF n] by (simp add: comp_def sh)
  have v: "sig_indexes_valid self' comp =
      Inr (\<forall>i\<in>set comp. i \<in> set (map int (get_axes_index am)))"
    using sig_indexes_valid_Some[OF n, of comp] by (auto simp: comp_def gi)
  define am' where "am' = (if \<forall>i\<in>set comp. i \<in> set (map int (get_axes_index am))
          then self'\<lparr>am_sig_indexes := comp\<rparr> else self')"
  have r: "set_nav_indexes am new = Inr am'"
  proof -
    have "set_nav_indexes am new =
       (case compute_sig_indexes self' of Inl e \<Rightarrow> Inl e | Inr s \<Rightarrow> set_sig_indexes self' s)"
      unfolding set_nav_indexes_def self'_def Let_def ..
    also have "\<dots> = set_sig_indexes self' comp" by (simp add: c)
    also have "\<dots> = Inr am'"
      by (simp add: set_sig_indexes_def v am'_def)
    finally show ?thesis .
  qed
  have nv: "nav' = (if \<forall>i\<in>set new. i \<in> set (map int (get_axes_index am)) then new else old)"
    by (simp add: nav'_def nav_indexes_valid_iff)
  have 1: "am_data_shape am' = am_data_shape am" by (simp add: am'_def sh)
  have 2: "am_axes am' = am_axes am" by (simp add: am'_def ax)
  have 3: "am_nav_indexes am' = Some nav'" by (simp add: am'_def n)
  have 4: "am_sig_indexes am' =
               (if \<forall>i\<in>set comp. i \<in> set (map int (get_axes_index am)) then comp
                else am_sig_indexes am)"
    by (simp add: am'_def sg)
  from r nv comp_def 1 2 3 4 show ?thesis by blast
qed

lemma manage_no_named: "manage_named_axes self no_named = Inr self"
  by (simp add: manage_named_axes_def manage_x_axis_def manage_y_axis_def manage_nav_axis_def)

lemma AxesManager_init_total:
  assumes "\<forall>a\<in>set axes. ax_index a < length data_shape"
  shows "\<exists>am. AxesManager_init data_shape axes (Some nav_indexes) sg no_named = Inr am"
proof -
  obtain s where s: "(case sg of Some s \<Rightarrow> Inr s
      | None \<Rightarrow> compute_sig_indexes \<lparr>am_data_shape = data_shape, am_axes = axes,
                  am_nav_indexes = Some nav_indexes, am_sig_indexes = []\<rparr>) = Inr s"
    by (cases sg) (simp_all add: compute_sig_indexes_def)
  from assms obtain axes' where
    "check_axis_loop \<lparr>am_data_shape = data_shape, am_axes = axes,
        am_nav_indexes = Some nav_indexes, am_sig_indexes = s\<rparr> axes = Inr axes'"
    using check_axis_loop_total[of axes "\<lparr>am_data_shape = data_shape, am_axes = axes,
        am_nav_indexes = Some nav_indexes, am_sig_indexes = s\<rparr>"] by auto
  with s show ?thesis
    by (simp add: AxesManager_init_def check_axis_def manage_no_named)
qed

abbreviation checked :: "nat list \<Rightarrow> Axis \<Rightarrow> Axis \<Rightarrow> bool" where
  "checked shape a a' \<equiv>
     ax_index a < length shape
     \<and> (if shape ! ax_index a = ax_size a then a' = a
        else (ax_data a = None \<longrightarrow>
                a' = a\<lparr>ax_scaling := Some (Fl 1), ax_offset := Some (Fl 0),
                       ax_size := shape ! ax_index a\<rparr>))"

lemma check_axis_step_checked:
  "check_axis_step s a = Inr a' \<Longrightarrow> checked (am_data_shape s) a a'"
  by (auto simp: check_axis_step_def get_shape_from_index_def Axis_set_size_def
      split: if_splits)

lemma check_axis_step_twice:
  assumes "check_axis_step s a = Inr a1" and "check_axis_step s' a1 = Inr a2"
    and "am_data_shape s' = am_data_shape s"
  shows "checked (am_data_shape s) a a2"
  using assms
  by (auto simp: check_axis_step_def get_shape_from_index_def Axis_set_size_def
      split: if_splits)

lemma append_named_axes:
  "append_named self named index = Inr self' \<Longrightarrow>
     \<exists>extra. am_axes self' = am_axes self @ extra"
  by (auto simp: append_named_def split: sum.splits)

lemma manage_x_axis_axes:
  "manage_x_axis st x = Inr st' \<Longrightarrow> \<exists>extra. am_axes (fst st') = am_axes (fst st) @ extra"
  by (auto simp: manage_x_axis_def split: option.splits sum.splits dest: append_named_axes)

lemma manage_y_axis_axes:
  "manage_y_axis st y = Inr st' \<Longrightarrow> \<exists>extra. am_axes (fst st') = am_axes (fst st) @ extra"
  by (auto simp: manage_y_axis_def split: option.splits sum.splits if_splits
      dest: append_named_axes)

lemma manage_nav_axis_axes:
  "manage_nav_axis k st nv = Inr st' \<Longrightarrow>
     \<exists>extra. am_axes (fst st') = am_axes (fst st) @ extra"
  by (auto simp: manage_nav_axis_def Let_def split: option.splits sum.splits if_splits
      dest: append_named_axes)

lemma manage_named_axes_axes:
  assumes "manage_named_axes self kwargs = Inr am"
  shows "am = self \<or>
         (\<exists>s extra. check_axis s (am_axes self @ extra) = Inr am
              \<and> am_data_shape s = am_data_shape self)"
proof -
  from assms obtain st1 st2 st3 st4 where
    1: "manage_x_axis (self, False) (x_axis kwargs) = Inr st1" and
    2: "manage_y_axis st1 (y_axis kwargs) = Inr st2" and
    3: "manage_nav_axis 0 st2 (nav_x_axis kwargs) = Inr st3" and
    4: "manage_nav_axis 1 st3 (nav_y_axis kwargs) = Inr st4" and
    5: "(if snd st4 then check_axis (fst st4) (am_axes (fst st4)) else Inr (fst st4)) = Inr am"
    by (auto simp: manage_named_axes_def split: sum.splits)
  note a = manage_x_axis_Inr[OF 1] manage_y_axis_Inr[OF 2]
    manage_nav_axis_Inr[OF 3] manage_nav_axis_Inr[OF 4]
  have sh: "am_data_shape (fst st4) = am_data_shape self"
    using a by simp
  from manage_x_axis_axes[OF 1] manage_y_axis_axes[OF 2]
    manage_nav_axis_axes[OF 3] manage_nav_axis_axes[OF 4]
  obtain extra where ex: "am_axes (fst st4) = am_axes self @ extra"
    by auto
  show ?thesis
  proof (cases "snd st4")
    case True
    with 5 sh ex show ?thesis by auto
  next
    case False
    with a have "st4 = (self, False)"
      by (metis snd_conv)
    with 5 False show ?thesis by simp
  qed
qed

lemma AxesManager_init_axes:
  assumes "AxesManager_init data_shape axes nav sg kwargs = Inr am"
  shows "length axes \<le> length (am_axes am)"
    and "kwargs = no_named \<Longrightarrow> length (am_axes am) = length axes"
    and "i < length axes \<Longrightarrow> checked data_shape (axes ! i) (am_axes am ! i)"
proof -
  from assms obtain s0 self' where
    c: "check_axis \<lparr>am_data_shape = data_shape, am_axes = axes, am_nav_indexes = nav,
          am_sig_indexes = s0\<rparr> axes = Inr self'"
    and m: "manage_named_axes self' kwargs = Inr am"
    by (auto simp: AxesManager_init_def Let_def split: sum.splits)
  define s1 where "s1 = \<lparr>am_data_shape = data_shape, am_axes = axes, am_nav_indexes = nav,
          am_sig_indexes = s0\<rparr>"
  have sh1: "am_data_shape s1 = data_shape" by (simp add: s1_def)
  note c' = c[folded s1_def]
  from check_axis_Inr(1)[OF c'] sh1 have c1: "am_data_shape self' = data_shape" by simp
  note l1 = check_axis_Inr(4)[OF c']
  have len1: "length (am_axes self') = length axes"
    using l1 by (simp add: list_all2_lengthD)
  have st1: "check_axis_step s1 (axes ! k) = Inr (am_axes self' ! k)" if "k < length axes" for k
    using l1 that by (simp add: list_all2_conv_all_nth)
  from manage_named_axes_axes[OF m]
  have r: "length axes \<le> length (am_axes am)
    \<and> (i < length axes \<longrightarrow> checked data_shape (axes ! i) (am_axes am ! i))"
  proof
    assume e: "am = self'"
    have "checked data_shape (axes ! i) (am_axes am ! i)" if "i < length axes"
      using check_axis_step_checked[OF st1[OF that]] unfolding e sh1 .
    with len1 e show ?thesis by auto
  next
    assume "\<exists>s extra. check_axis s (am_axes self' @ extra) = Inr am
              \<and> am_data_shape s = am_data_shape self'"
    then obtain s extra where s: "check_axis s (am_axes self' @ extra) = Inr am"
      and sh: "am_data_shape s = am_data_shape self'" by blast
    note l2 = check_axis_Inr(4)[OF s]
    have len2: "length (am_axes am) = length axes + length extra"
      using l2 len1 by (auto dest: list_all2_lengthD)
    have "checked data_shape (axes ! i) (am_axes am ! i)" if i: "i < length axes"
    proof -
      from l2 i len1 have "check_axis_step s ((am_axes self' @ extra) ! i) = Inr (am_axes am ! i)"
        by (simp add: list_all2_conv_all_nth)
      with i len1 have 2: "check_axis_step s (am_axes self' ! i) = Inr (am_axes am ! i)"
        by (simp add: nth_append)
      from sh c1 sh1 have "am_data_shape s = am_data_shape s1" by simp
      from check_axis_step_twice[OF st1[OF i] 2 this] show ?thesis unfolding sh1 .
    qed
    with len2 show ?thesis by auto
  qed
  from r show "length axes \<le> length (am_axes am)" by simp
  from r show "checked data_shape (axes ! i) (am_axes am ! i)" if "i < length axes"
    using that by simp
  show "length (am_axes am) = length axes" if "kwargs = no_named"
    using m len1 that by (simp add: manage_no_named)
qed


lemma check_axis_total:
  "\<forall>a\<in>set axes. ax_index a < length (am_data_shape s) \<Longrightarrow> \<exists>am'. check_axis s axes = Inr am'"
  using check_axis_loop_total[of axes s] by (auto simp: check_axis_def)

lemma check_axis_raises:
  assumes "\<exists>a\<in>set axes. length (am_data_shape s) \<le> ax_index a"
  shows "check_axis s axes = Inl IndexError"
proof (cases "check_axis_loop s axes")
  case (Inl e)
  with check_axis_loop_Inl[OF Inl] show ?thesis by (simp add: check_axis_def)
next
  case (Inr axes')
  from assms obtain a where a: "a \<in> set axes" "length (am_data_shape s) \<le> ax_index a"
    by blast
  from check_axis_loop_Inr[OF Inr] a(1) obtain a' where "check_axis_step s a = Inr a'"
    by (auto simp: in_set_conv_nth list_all2_conv_all_nth)
  from check_axis_step_Inr(1)[OF this] a(2) have False by simp
  then show ?thesis ..
qed

lemma check_axis_checked:
  assumes "check_axis s axes = Inr am"
  shows "am_data_shape am = am_data_shape s" and "length (am_axes am) = length axes"
    and "i < length axes \<Longrightarrow> checked (am_data_shape s) (axes ! i) (am_axes am ! i)"
proof -
  from check_axis_Inr(1)[OF assms] show "am_data_shape am = am_data_shape s" .
  note l = check_axis_Inr(4)[OF assms]
  then show "length (am_axes am) = length axes" by (simp add: list_all2_lengthD)
  show "checked (am_data_shape s) (axes ! i) (am_axes am ! i)" if "i < length axes"
  proof -
    from l that have "check_axis_step s (axes ! i) = Inr (am_axes am ! i)"
      by (simp add: list_all2_conv_all_nth)
    then show ?thesis by (rule check_axis_step_checked)
  qed
qed

lemma AxesManager_init_raises:
  assumes "\<exists>a\<in>set axes. length data_shape \<le> ax_index a"
  shows "AxesManager_init data_shape axes (Some nav_indexes) sg kwargs = Inl IndexError"
proof -
  obtain s where s: "(case sg of Some s \<Rightarrow> Inr s
      | None \<Rightarrow> compute_sig_indexes \<lparr>am_data_shape = data_shape, am_axes = axes,
                  am_nav_indexes = Some nav_indexes, am_sig_indexes = []\<rparr>) = Inr s"
    by (cases sg) (simp_all add: compute_sig_indexes_def)
  have "check_axis \<lparr>am_data_shape = data_shape, am_axes = axes,
        am_nav_indexes = Some nav_indexes, am_sig_indexes = s\<rparr> axes = Inl IndexError"
    using assms by (intro check_axis_raises) simp
  with s show ?thesis by (simp add: AxesManager_init_def)
qed

lemmas init_defs = AxesManager_init_def compute_sig_indexes_def check_axis_def
  check_axis_step_def get_shape_from_index_def Axis_set_size_def manage_named_axes_def
  manage_x_axis_def manage_y_axis_def manage_nav_axis_def

lemmas nav_defs = set_nav_indexes_def set_sig_indexes_def compute_sig_indexes_def
  get_axes_index_def

subsection \<open>The size check\<close>

text \<open>
  C2 as the specification states it: after construction, an assignment to \<^verbatim>\<open>axes\<close> or
  \<^verbatim>\<open>append_axis\<close>, every axis has \<^verbatim>\<open>size == data_shape[index]\<close>, and the check
  never raises. It fails on the code: an axis whose index is not a dimension of the shape
  makes \<^verbatim>\<open>get_shape_from_index\<close> raise IndexError, and an axis that stores explicit data
  of the wrong length keeps its data and its size (the \<^verbatim>\<open>size\<close> setter ignores the
  assignment), only its scaling and offset are overwritten.
\<close>

theorem check_axis_counterexample:
  "AxesManager_init [3] [unit_axis 1 3] (Some []) None no_named = Inl IndexError
   \<and> AxesManager_init [5]
        [\<lparr>ax_label = ''x'', ax_units = ''s'', ax_data = Some [Fl 0, Fl 1, Fl 4], ax_index = 0,
          ax_scaling = None, ax_offset = None, ax_size = 3\<rparr>] (Some []) None no_named =
       Inr \<lparr>am_data_shape = [5],
            am_axes = [\<lparr>ax_label = ''x'', ax_units = ''s'', ax_data = Some [Fl 0, Fl 1, Fl 4],
                        ax_index = 0, ax_scaling = Some (Fl 1), ax_offset = Some (Fl 0),
                        ax_size = 3\<rparr>],
            am_nav_indexes = Some [], am_sig_indexes = [0]\<rparr>"
  by (simp add: init_defs upt_rec)

text \<open>
  C2, amended. Whenever the construction, the assignment to \<^verbatim>\<open>axes\<close> or
  \<^verbatim>\<open>append_axis\<close> returns, the shape is unchanged and each supplied axis has an index
  inside the shape and has been checked: an axis whose size is already
  \<^verbatim>\<open>data_shape[index]\<close>, compact or explicit, is left as it is, and a compact axis of
  another size is given the size of the shape, scaling 1 and offset 0 (label, units and
  index kept). The supplied axes stand at their positions in \<^verbatim>\<open>axes\<close>; after a
  construction further axes can only follow them, and there are none without keyword axes;
  after \<^verbatim>\<open>append_axis\<close> the checked axis is what \<^verbatim>\<open>axes\<close> holds. Every axis of
  \<^verbatim>\<open>axes\<close> that stores no explicit data has \<^verbatim>\<open>size == data_shape[index]\<close>. The three
  operations return when every index is below \<^verbatim>\<open>len(data_shape)\<close> (the construction:
  with a tuple \<^verbatim>\<open>nav_indexes\<close> and without keyword axes) and raise IndexError when an
  index is not.
\<close>

theorem check_axis_repairs_compact_axes:
  "(AxesManager_init data_shape axes nav sg kwargs = Inr am \<longrightarrow>
      am_data_shape am = data_shape
      \<and> length axes \<le> length (am_axes am)
      \<and> (kwargs = no_named \<longrightarrow> length (am_axes am) = length axes)
      \<and> (\<forall>i<length axes.
            ax_index (axes ! i) < length data_shape
            \<and> (if data_shape ! ax_index (axes ! i) = ax_size (axes ! i) then am_axes am ! i = axes ! i
               else (ax_data (axes ! i) = None \<longrightarrow>
                       am_axes am ! i = (axes ! i)\<lparr>ax_scaling := Some (Fl 1), ax_offset := Some (Fl 0),
                                  ax_size := data_shape ! ax_index (axes ! i)\<rparr>)))
      \<and> (\<forall>a\<in>set (am_axes am). ax_data a = None \<longrightarrow>
            ax_index a < length data_shape \<and> ax_size a = data_shape ! ax_index a))
   \<and> (set_axes am0 axes = Inr am1 \<longrightarrow>
      am_data_shape am1 = am_data_shape am0
      \<and> length (am_axes am1) = length axes
      \<and> (\<forall>i<length axes.
            ax_index (axes ! i) < length (am_data_shape am0)
            \<and> (if am_data_shape am0 ! ax_index (axes ! i) = ax_size (axes ! i) then am_axes am1 ! i = axes ! i
               else (ax_data (axes ! i) = None \<longrightarrow>
                       am_axes am1 ! i = (axes ! i)\<lparr>ax_scaling := Some (Fl 1), ax_offset := Some (Fl 0),
                                  ax_size := am_data_shape am0 ! ax_index (axes ! i)\<rparr>)))
      \<and> (\<forall>a\<in>set (am_axes am1). ax_data a = None \<longrightarrow>
            ax_index a < length (am_data_shape am0) \<and> ax_size a = am_data_shape am0 ! ax_index a))
   \<and> (append_axis am0 axis = Inr am2 \<longrightarrow>
      am_data_shape am2 = am_data_shape am0
      \<and> (\<exists>a'. am_axes am2 = [a'] \<and>
            ax_index axis < length (am_data_shape am0)
            \<and> (if am_data_shape am0 ! ax_index axis = ax_size axis then a' = axis
               else (ax_data axis = None \<longrightarrow>
                       a' = axis\<lparr>ax_scaling := Some (Fl 1), ax_offset := Some (Fl 0),
                                  ax_size := am_data_shape am0 ! ax_index axis\<rparr>)))
      \<and> (\<forall>a\<in>set (am_axes am2). ax_data a = None \<longrightarrow>
            ax_index a < length (am_data_shape am0) \<and> ax_size a = am_data_shape am0 ! ax_index a))
   \<and> ((\<forall>a\<in>set axes. ax_index a < length data_shape) \<longrightarrow>
        (\<exists>am'. AxesManager_init data_shape axes (Some nav_indexes) sg no_named = Inr am'))
   \<and> ((\<exists>a\<in>set axes. length data_shape \<le> ax_index a) \<longrightarrow>
        AxesManager_init data_shape axes (Some nav_indexes) sg kwargs = Inl IndexError)
   \<and> ((\<forall>a\<in>set axes. ax_index a < length (am_data_shape am0)) \<longrightarrow>
        (\<exists>am'. set_axes am0 axes = Inr am'))
   \<and> ((\<exists>a\<in>set axes. length (am_data_shape am0) \<le> ax_index a) \<longrightarrow>
        set_axes am0 axes = Inl IndexError)
   \<and> (ax_index axis < length (am_data_shape am0) \<longrightarrow>
        (\<exists>am'. append_axis am0 axis = Inr am'))
   \<and> (length (am_data_shape am0) \<le> ax_index axis \<longrightarrow>
        append_axis am0 axis = Inl IndexError)"
proof (intro conjI impI)
  assume a: "AxesManager_init data_shape axes nav sg kwargs = Inr am"
  from AxesManager_init_Inr[OF a] show "am_data_shape am = data_shape" by simp
  from AxesManager_init_axes(1)[OF a] show "length axes \<le> length (am_axes am)" .
  from AxesManager_init_axes(3)[OF a]
  show "\<forall>i<length axes. checked data_shape (axes ! i) (am_axes am ! i)" by blast
  from AxesManager_init_Inr[OF a] obtain s xs where
    "check_axis s xs = Inr am" "am_data_shape am = data_shape" by blast
  then show "\<forall>a\<in>set (am_axes am). ax_data a = None \<longrightarrow>
            ax_index a < length data_shape \<and> ax_size a = data_shape ! ax_index a"
    using check_axis_fits by fastforce
  show "length (am_axes am) = length axes" if "kwargs = no_named"
    using AxesManager_init_axes(2)[OF a that] .
next
  assume a: "set_axes am0 axes = Inr am1"
  then have c: "check_axis (am0\<lparr>am_axes := axes\<rparr>) axes = Inr am1"
    by (simp add: set_axes_def)
  from check_axis_checked(1)[OF c] show sh: "am_data_shape am1 = am_data_shape am0" by simp
  from check_axis_checked(2)[OF c] show "length (am_axes am1) = length axes" .
  from check_axis_checked(3)[OF c]
  show "\<forall>i<length axes. checked (am_data_shape am0) (axes ! i) (am_axes am1 ! i)" by simp
  from check_axis_fits[OF c] sh
  show "\<forall>a\<in>set (am_axes am1). ax_data a = None \<longrightarrow>
            ax_index a < length (am_data_shape am0)
            \<and> ax_size a = am_data_shape am0 ! ax_index a"
    by simp
next
  assume a: "append_axis am0 axis = Inr am2"
  then have c: "check_axis (am0\<lparr>am_axes := am_axes am0 @ [axis]\<rparr>) [axis] = Inr am2"
    by (simp add: append_axis_def)
  from check_axis_checked(1)[OF c] show sh: "am_data_shape am2 = am_data_shape am0" by simp
  from check_axis_checked(2)[OF c] obtain a' where a': "am_axes am2 = [a']"
    by (cases "am_axes am2") auto
  from check_axis_checked(3)[OF c, of 0]
  have "checked (am_data_shape am0) axis (am_axes am2 ! 0)" by simp
  with a' show "\<exists>a'. am_axes am2 = [a'] \<and> checked (am_data_shape am0) axis a'"
    by (auto split: if_splits)
  from check_axis_fits[OF c] sh
  show "\<forall>a\<in>set (am_axes am2). ax_data a = None \<longrightarrow>
            ax_index a < length (am_data_shape am0)
            \<and> ax_size a = am_data_shape am0 ! ax_index a"
    by simp
next
  assume "\<forall>a\<in>set axes. ax_index a < length data_shape"
  then show "\<exists>am'. AxesManager_init data_shape axes (Some nav_indexes) sg no_named = Inr am'"
    by (rule AxesManager_init_total)
next
  assume "\<exists>a\<in>set axes. length data_shape \<le> ax_index a"
  then show "AxesManager_init data_shape axes (Some nav_indexes) sg kwargs = Inl IndexError"
    by (rule AxesManager_init_raises)
next
  assume "\<forall>a\<in>set axes. ax_index a < length (am_data_shape am0)"
  then show "\<exists>am'. set_axes am0 axes = Inr am'"
    unfolding set_axes_def by (intro check_axis_total) simp
next
  assume "\<exists>a\<in>set axes. length (am_data_shape am0) \<le> ax_index a"
  then show "set_axes am0 axes = Inl IndexError"
    unfolding set_axes_def by (intro check_axis_raises) simp
next
  assume "ax_index axis < length (am_data_shape am0)"
  then show "\<exists>am'. append_axis am0 axis = Inr am'"
    unfolding append_axis_def by (intro check_axis_total) simp
next
  assume "length (am_data_shape am0) \<le> ax_index axis"
  then show "append_axis am0 axis = Inl IndexError"
    unfolding append_axis_def by (intro check_axis_raises) simp
qed

theorem check_axis_repairs_compact_axes_witness:
  "AxesManager_init [5, 3]
      [\<lparr>ax_label = ''x'', ax_units = ''s'', ax_data = None, ax_index = 0,
          ax_scaling = Some (Fl 2), ax_offset = Some (Fl 7), ax_size = 3\<rparr>,
       \<lparr>ax_label = ''y'', ax_units = ''s'', ax_data = Some [Fl 0, Fl 1, Fl 4], ax_index = 1,
          ax_scaling = None, ax_offset = None, ax_size = 3\<rparr>]
      (Some []) None no_named =
     Inr \<lparr>am_data_shape = [5, 3], am_axes = [unit_axis 0 5, \<lparr>ax_label = ''y'', ax_units = ''s'', ax_data = Some [Fl 0, Fl 1, Fl 4], ax_index = 1,
          ax_scaling = None, ax_offset = None, ax_size = 3\<rparr>],
          am_nav_indexes = Some [], am_sig_indexes = [0, 1]\<rparr>
   \<and> set_axes \<lparr>am_data_shape = [5, 3], am_axes = [], am_nav_indexes = Some [], am_sig_indexes = [0, 1]\<rparr>
      [\<lparr>ax_label = ''x'', ax_units = ''s'', ax_data = None, ax_index = 0,
          ax_scaling = Some (Fl 2), ax_offset = Some (Fl 7), ax_size = 3\<rparr>,
       \<lparr>ax_label = ''y'', ax_units = ''s'', ax_data = Some [Fl 0, Fl 1, Fl 4], ax_index = 1,
          ax_scaling = None, ax_offset = None, ax_size = 3\<rparr>] =
     Inr \<lparr>am_data_shape = [5, 3], am_axes = [unit_axis 0 5, \<lparr>ax_label = ''y'', ax_units = ''s'', ax_data = Some [Fl 0, Fl 1, Fl 4], ax_index = 1,
          ax_scaling = None, ax_offset = None, ax_size = 3\<rparr>],
          am_nav_indexes = Some [], am_sig_indexes = [0, 1]\<rparr>
   \<and> append_axis \<lparr>am_data_shape = [5, 3], am_axes = [], am_nav_indexes = Some [], am_sig_indexes = [0, 1]\<rparr>
        \<lparr>ax_label = ''x'', ax_units = ''s'', ax_data = None, ax_index = 0,
          ax_scaling = Some (Fl 2), ax_offset = Some (Fl 7), ax_size = 3\<rparr> =
     Inr \<lparr>am_data_shape = [5, 3], am_axes = [unit_axis 0 5], am_nav_indexes = Some [],
          am_sig_indexes = [0, 1]\<rparr>
   \<and> AxesManager_init [5, 3] [unit_axis 2 5] (Some []) None no_named = Inl IndexError
   \<and> set_axes \<lparr>am_data_shape = [5, 3], am_axes = [], am_nav_indexes = Some [], am_sig_indexes = [0, 1]\<rparr> [unit_axis 2 5] = Inl IndexError
   \<and> append_axis \<lparr>am_data_shape = [5, 3], am_axes = [], am_nav_indexes = Some [], am_sig_indexes = [0, 1]\<rparr> (unit_axis 2 5) = Inl IndexError"
proof -
  have e: ?thesis
    by (simp add: init_defs set_axes_def append_axis_def upt_rec)
  show ?thesis
    using check_axis_repairs_compact_axes
      [where data_shape = "[5, 3]"
         and axes = "[\<lparr>ax_label = ''x'', ax_units = ''s'', ax_data = None, ax_index = 0,
          ax_scaling = Some (Fl 2), ax_offset = Some (Fl 7), ax_size = 3\<rparr>,
       \<lparr>ax_label = ''y'', ax_units = ''s'', ax_data = Some [Fl 0, Fl 1, Fl 4], ax_index = 1,
          ax_scaling = None, ax_offset = None, ax_size = 3\<rparr>]"
         and nav = "Some []" and sg = None and kwargs = no_named and nav_indexes = "[]"
         and am = "\<lparr>am_data_shape = [5, 3], am_axes = [unit_axis 0 5, \<lparr>ax_label = ''y'', ax_units = ''s'', ax_data = Some [Fl 0, Fl 1, Fl 4], ax_index = 1,
          ax_scaling = None, ax_offset = None, ax_size = 3\<rparr>],
          am_nav_indexes = Some [], am_sig_indexes = [0, 1]\<rparr>"
         and ?am0.0 = "\<lparr>am_data_shape = [5, 3], am_axes = [], am_nav_indexes = Some [], am_sig_indexes = [0, 1]\<rparr>"
         and ?am1.0 = "\<lparr>am_data_shape = [5, 3], am_axes = [unit_axis 0 5, \<lparr>ax_label = ''y'', ax_units = ''s'', ax_data = Some [Fl 0, Fl 1, Fl 4], ax_index = 1,
          ax_scaling = None, ax_offset = None, ax_size = 3\<rparr>],
          am_nav_indexes = Some [], am_sig_indexes = [0, 1]\<rparr>"
         and axis = "\<lparr>ax_label = ''x'', ax_units = ''s'', ax_data = None, ax_index = 0,
          ax_scaling = Some (Fl 2), ax_offset = Some (Fl 7), ax_size = 3\<rparr>"
         and ?am2.0 = "\<lparr>am_data_shape = [5, 3], am_axes = [unit_axis 0 5], am_nav_indexes = Some [],
          am_sig_indexes = [0, 1]\<rparr>"]
      check_axis_repairs_compact_axes
      [where data_shape = "[5, 3]" and axes = "[unit_axis 2 5]"
         and nav = "Some []" and sg = None and kwargs = no_named and nav_indexes = "[]"
         and ?am0.0 = "\<lparr>am_data_shape = [5, 3], am_axes = [], am_nav_indexes = Some [], am_sig_indexes = [0, 1]\<rparr>"
         and axis = "unit_axis 2 5"]
    by - (rule e)
qed

subsection \<open>The navigation indexes\<close>

text \<open>
  C4 as the specification states it: a rejected assignment to \<^verbatim>\<open>nav_indexes\<close> leaves
  \<^verbatim>\<open>sig_indexes\<close> unchanged, and an accepted one sets \<^verbatim>\<open>sig_indexes\<close> to the
  complement. It fails on the code. The setter always assigns
  \<^verbatim>\<open>self.sig_indexes = self.compute_sig_indexes()\<close>, and the \<^verbatim>\<open>sig_indexes\<close> setter
  takes the tuple only when each of its indexes has a declared axis. On a manager built with
  \<^verbatim>\<open>nav_indexes=(0,)\<close> and \<^verbatim>\<open>sig_indexes=(1,)\<close> over three axes, the rejected
  assignment \<^verbatim>\<open>nav_indexes = (7,)\<close> changes \<^verbatim>\<open>sig_indexes\<close> to \<open>(1, 2)\<close>. On a
  manager of shape \<open>(3, 4)\<close> with one axis of index 0, the accepted assignment
  \<^verbatim>\<open>nav_indexes = (0,)\<close> leaves \<^verbatim>\<open>sig_indexes\<close> at \<open>(0, 1)\<close>.
\<close>

theorem set_nav_indexes_counterexample:
  "AxesManager_init [2, 3, 4] [unit_axis 0 2, unit_axis 1 3, unit_axis 2 4] (Some [0]) (Some [1])
       no_named =
     Inr \<lparr>am_data_shape = [2, 3, 4], am_axes = [unit_axis 0 2, unit_axis 1 3, unit_axis 2 4],
          am_nav_indexes = Some [0], am_sig_indexes = [1]\<rparr>
   \<and> set_nav_indexes
        \<lparr>am_data_shape = [2, 3, 4], am_axes = [unit_axis 0 2, unit_axis 1 3, unit_axis 2 4],
         am_nav_indexes = Some [0], am_sig_indexes = [1]\<rparr> [7] =
     Inr \<lparr>am_data_shape = [2, 3, 4], am_axes = [unit_axis 0 2, unit_axis 1 3, unit_axis 2 4],
          am_nav_indexes = Some [0], am_sig_indexes = [1, 2]\<rparr>
   \<and> AxesManager_init [3, 4] [unit_axis 0 3] (Some []) None no_named =
     Inr \<lparr>am_data_shape = [3, 4], am_axes = [unit_axis 0 3],
          am_nav_indexes = Some [], am_sig_indexes = [0, 1]\<rparr>
   \<and> set_nav_indexes
        \<lparr>am_data_shape = [3, 4], am_axes = [unit_axis 0 3],
         am_nav_indexes = Some [], am_sig_indexes = [0, 1]\<rparr> [0] =
     Inr \<lparr>am_data_shape = [3, 4], am_axes = [unit_axis 0 3],
          am_nav_indexes = Some [0], am_sig_indexes = [0, 1]\<rparr>"
  by (simp add: init_defs nav_defs upt_rec)

text \<open>
  C4, amended: on a manager whose \<^verbatim>\<open>nav_indexes\<close> is a tuple, the assignment returns
  and changes neither the shape nor the axes. \<^verbatim>\<open>nav_indexes\<close> becomes the proposed tuple
  when each of its indexes is the index of a declared axis, and keeps its value otherwise.
  In both cases \<^verbatim>\<open>sig_indexes\<close> becomes the complement of the resulting
  \<^verbatim>\<open>nav_indexes\<close> within the dimension indexes when each index of this complement has a
  declared axis, and keeps its value otherwise.
\<close>

theorem set_nav_indexes_all_or_nothing:
  assumes "am_nav_indexes am = Some old"
  shows "\<exists>am' nav' comp. set_nav_indexes am new = Inr am'
     \<and> nav' = (if \<forall>i\<in>set new. i \<in> set (map int (get_axes_index am)) then new else old)
     \<and> comp = filter (\<lambda>i. i \<notin> set nav') (map int [0..<length (am_data_shape am)])
     \<and> am_data_shape am' = am_data_shape am \<and> am_axes am' = am_axes am
     \<and> am_nav_indexes am' = Some nav'
     \<and> am_sig_indexes am' =
           (if \<forall>i\<in>set comp. i \<in> set (map int (get_axes_index am)) then comp
            else am_sig_indexes am)"
proof -
  from set_nav_indexes_Some[OF assms, of new] obtain am' nav' comp where
    "set_nav_indexes am new = Inr am'"
    "nav' = (if \<forall>i\<in>set new. i \<in> set (map int (get_axes_index am)) then new else old)"
    "comp = filter (\<lambda>i. i \<notin> set nav') (map int [0..<length (am_data_shape am)])"
    "am_data_shape am' = am_data_shape am" "am_axes am' = am_axes am"
    "am_nav_indexes am' = Some nav'"
    "am_sig_indexes am' =
           (if \<forall>i\<in>set comp. i \<in> set (map int (get_axes_index am)) then comp
            else am_sig_indexes am)"
    by blast
  then show ?thesis by blast
qed

theorem set_nav_indexes_all_or_nothing_witness:
  "am_nav_indexes \<lparr>am_data_shape = [2, 3], am_axes = [unit_axis 0 2, unit_axis 1 3],
            am_nav_indexes = Some [], am_sig_indexes = [0, 1]\<rparr> = Some []
   \<and> set_nav_indexes \<lparr>am_data_shape = [2, 3], am_axes = [unit_axis 0 2, unit_axis 1 3],
            am_nav_indexes = Some [], am_sig_indexes = [0, 1]\<rparr> [0] =
       Inr \<lparr>am_data_shape = [2, 3], am_axes = [unit_axis 0 2, unit_axis 1 3],
            am_nav_indexes = Some [0], am_sig_indexes = [1]\<rparr>
   \<and> set_nav_indexes \<lparr>am_data_shape = [2, 3], am_axes = [unit_axis 0 2, unit_axis 1 3],
            am_nav_indexes = Some [], am_sig_indexes = [0, 1]\<rparr> [0, 5] =
       Inr \<lparr>am_data_shape = [2, 3], am_axes = [unit_axis 0 2, unit_axis 1 3],
            am_nav_indexes = Some [], am_sig_indexes = [0, 1]\<rparr>"
proof -
  have e: ?thesis
    by (simp add: nav_defs upt_rec)
  show ?thesis
    using set_nav_indexes_all_or_nothing
      [of "\<lparr>am_data_shape = [2, 3], am_axes = [unit_axis 0 2, unit_axis 1 3],
              am_nav_indexes = Some [], am_sig_indexes = [0, 1]\<rparr>" "[]" "[0]"]
      set_nav_indexes_all_or_nothing
      [of "\<lparr>am_data_shape = [2, 3], am_axes = [unit_axis 0 2, unit_axis 1 3],
              am_nav_indexes = Some [], am_sig_indexes = [0, 1]\<rparr>" "[]" "[0, 5]"]
    by - (rule e)
qed

text \<open>
  C9 as stated: every construction with a \<^verbatim>\<open>nav_indexes\<close> tuple that names an undeclared
  axis succeeds. It fails when a declared axis has an index outside the shape: the
  constructor's call of \<^verbatim>\<open>_check_axis\<close> raises IndexError.
\<close>

theorem init_raises_counterexample:
  "AxesManager_init [3, 4] [unit_axis 0 3, unit_axis 2 4] (Some [5]) None no_named = Inl IndexError"
  by (simp add: init_defs upt_rec)

text \<open>
  C9, amended: the constructor does not validate \<^verbatim>\<open>nav_indexes\<close>. Whenever it returns,
  \<^verbatim>\<open>nav_indexes\<close> is the supplied value verbatim; without keyword axes it returns for
  every tuple \<^verbatim>\<open>nav_indexes\<close> as soon as every declared axis has an index below
  \<^verbatim>\<open>len(data_shape)\<close>. The setter, on a manager whose \<^verbatim>\<open>nav_indexes\<close> is a tuple,
  rejects a tuple with an index that has no declared axis and keeps the previous value.
\<close>

theorem init_stores_nav_indexes_verbatim:
  "(AxesManager_init data_shape axes nav sg kwargs = Inr am \<longrightarrow> am_nav_indexes am = nav)
   \<and> ((\<forall>a\<in>set axes. ax_index a < length data_shape) \<longrightarrow>
        (\<exists>am'. AxesManager_init data_shape axes (Some nav_indexes) sg no_named = Inr am'
               \<and> am_nav_indexes am' = Some nav_indexes))
   \<and> ((\<exists>i\<in>set nav_indexes. i \<notin> set (map int (get_axes_index am0)))
        \<and> am_nav_indexes am0 = Some old \<longrightarrow>
        (\<exists>am1. set_nav_indexes am0 nav_indexes = Inr am1 \<and> am_nav_indexes am1 = Some old))"
proof (intro conjI impI)
  assume "AxesManager_init data_shape axes nav sg kwargs = Inr am"
  from AxesManager_init_Inr[OF this] show "am_nav_indexes am = nav" by simp
next
  assume "\<forall>a\<in>set axes. ax_index a < length data_shape"
  from AxesManager_init_total[OF this] obtain am' where
    a: "AxesManager_init data_shape axes (Some nav_indexes) sg no_named = Inr am'" by blast
  from AxesManager_init_Inr[OF a] a
  show "\<exists>am'. AxesManager_init data_shape axes (Some nav_indexes) sg no_named = Inr am'
               \<and> am_nav_indexes am' = Some nav_indexes" by simp
next
  assume a: "(\<exists>i\<in>set nav_indexes. i \<notin> set (map int (get_axes_index am0)))
        \<and> am_nav_indexes am0 = Some old"
  then have o: "am_nav_indexes am0 = Some old" by simp
  from a have "\<not> (\<forall>i\<in>set nav_indexes. i \<in> set (map int (get_axes_index am0)))" by blast
  with set_nav_indexes_Some[OF o, of nav_indexes]
  show "\<exists>am1. set_nav_indexes am0 nav_indexes = Inr am1 \<and> am_nav_indexes am1 = Some old"
    by auto
qed

theorem init_stores_nav_indexes_verbatim_witness:
  "ax_index (unit_axis 0 3) < length [3::nat, 4]
   \<and> AxesManager_init [3, 4] [unit_axis 0 3] (Some [1, 5]) None no_named =
       Inr \<lparr>am_data_shape = [3, 4], am_axes = [unit_axis 0 3],
            am_nav_indexes = Some [1, 5], am_sig_indexes = [0]\<rparr>
   \<and> 5 \<in> set [1, 5 :: int]
   \<and> 5 \<notin> set (map int (get_axes_index \<lparr>am_data_shape = [3, 4], am_axes = [unit_axis 0 3],
            am_nav_indexes = Some [0], am_sig_indexes = [1]\<rparr>))
   \<and> set_nav_indexes \<lparr>am_data_shape = [3, 4], am_axes = [unit_axis 0 3],
            am_nav_indexes = Some [0], am_sig_indexes = [1]\<rparr> [1, 5] =
       Inr \<lparr>am_data_shape = [3, 4], am_axes = [unit_axis 0 3],
            am_nav_indexes = Some [0], am_sig_indexes = [1]\<rparr>"
proof -
  have e: ?thesis
    by (simp add: init_defs nav_defs upt_rec)
  show ?thesis
    using init_stores_nav_indexes_verbatim
      [of "[3, 4]" "[unit_axis 0 3]" "Some [1, 5]" None no_named
          "\<lparr>am_data_shape = [3, 4], am_axes = [unit_axis 0 3],
              am_nav_indexes = Some [1, 5], am_sig_indexes = [0]\<rparr>"
          "[1, 5]"
          "\<lparr>am_data_shape = [3, 4], am_axes = [unit_axis 0 3],
              am_nav_indexes = Some [0], am_sig_indexes = [1]\<rparr>" "[0]"]
    by - (rule e)
qed

section \<open>Properties of DataBase\<close>

lemma check_labels_dim: "db_dim (check_labels self labels) = db_dim self"
  by (induction self labels rule: check_labels.induct) (simp add: check_labels.simps)

lemma check_labels_shape: "db_shape (check_labels self labels) = db_shape self"
  by (induction self labels rule: check_labels.induct) (simp add: check_labels.simps)

lemma check_same_shape_Inr:
  "check_same_shape shape data = Inr u \<Longrightarrow> \<forall>a\<in>set data. nd_shape a = shape"
  by (induction data) (auto split: if_splits)

lemma check_shape_dim_consistency_Inr:
  assumes "check_shape_dim_consistency self dim0 (arr # arrs) = Inr self'"
  shows "db_shape self' = nd_shape arr"
    and "db_dim self' = dim_from_shape (nd_shape arr) (nd_size arr)"
proof -
  define derived where "derived = dim_from_shape (nd_shape arr) (nd_size arr)"
  define s1 where "s1 = self\<lparr>db_shape := nd_shape arr, db_size := nd_size arr,
                            db_length := length (arr # arrs)\<rparr>"
  have g: "get_dim_from_data self (arr # arrs) = Inr (s1, derived)"
    by (simp add: get_dim_from_data_def s1_def derived_def)
  have "self' = s1\<lparr>db_dim := derived\<rparr>"
    using assms unfolding check_shape_dim_consistency_def g
    by (cases dim0) (auto split: if_splits)
  then show "db_shape self' = nd_shape arr"
    and "db_dim self' = dim_from_shape (nd_shape arr) (nd_size arr)"
    by (simp_all add: s1_def derived_def)
qed

lemma DataBase_set_data_Inr:
  assumes "DataBase_set_data self dim0 data0 = Inr self'"
  shows "\<exists>arr arrs. check_data_type data0 = Inr (arr # arrs)
           \<and> (\<forall>a\<in>set arrs. nd_shape a = nd_shape arr)
           \<and> db_shape self' = nd_shape arr
           \<and> db_dim self' = dim_from_shape (nd_shape arr) (nd_size arr)"
proof -
  from assms obtain dat s1 where c: "check_data_type data0 = Inr dat"
    and k: "check_shape_dim_consistency self dim0 dat = Inr s1"
    and s: "check_same_shape (db_shape s1) dat = Inr ()"
    and r: "self' = s1\<lparr>db_data := dat\<rparr>"
    by (auto simp: DataBase_set_data_def split: sum.splits)
  from c obtain arr arrs where dat: "dat = arr # arrs"
    by (auto simp: check_data_type_def split: data_arg.splits list.splits if_splits)
  note h = check_shape_dim_consistency_Inr[OF k[unfolded dat]]
  from check_same_shape_Inr[OF s] h(1) dat
  have "\<forall>a\<in>set arrs. nd_shape a = nd_shape arr" by simp
  with c dat h r show ?thesis by simp
qed

lemma DataBase_init_Inr:
  assumes "DataBase_init name source dim0 distribution data labels origin = Inr d"
  shows "\<exists>arr arrs. check_data_type data = Inr (arr # arrs)
           \<and> (\<forall>a\<in>set arrs. nd_shape a = nd_shape arr)
           \<and> db_shape d = nd_shape arr
           \<and> db_dim d = dim_from_shape (nd_shape arr) (nd_size arr)"
proof -
  from assms obtain s1 where
    s: "DataBase_set_data
             \<lparr>db_name = name, db_origin = origin, db_source = source,
              db_distribution = distribution, db_dim = DataND, db_shape = [], db_size = 0,
              db_length = 0, db_data = [], db_labels = []\<rparr> dim0 data = Inr s1"
    and d: "d = check_labels s1 labels"
    by (auto simp: DataBase_init_def split: sum.splits)
  from DataBase_set_data_Inr[OF s] d show ?thesis
    by (simp add: check_labels_dim check_labels_shape)
qed

lemmas data_defs = DataBase_init_def DataBase_set_data_def check_data_type_def
  check_shape_dim_consistency_def get_dim_from_data_def dim_from_shape_def nd_size_def
  check_labels.simps channel_label_def decimal.simps DataWithAxes_init_def
  get_dim_from_data_axes_def

lemmas export_defs = DataToExport_init_def DataToExport_set_data_def
  affect_name_to_origin_if_none_def DataToExport_append_def get_data_from_name_origin_def
  DataBase_eq_def DataBase_getitem_def allclose_def list_pop_def

text \<open>
  C6. For every DataBase constructed without forcing \<^verbatim>\<open>dim\<close>, the data is a non-empty
  list of arrays of one shape, and \<^verbatim>\<open>dim\<close> is derived from that shape: one dimension
  of size 1 gives Data0D, one dimension of size greater than 1 gives Data1D, two dimensions
  give Data2D, any other shape gives DataND. A DataWithAxes without navigation indexes has
  the same \<^verbatim>\<open>dim\<close>.
\<close>

theorem DataBase_dim_derived_from_shape:
  "(DataBase_init name source None distribution data labels origin = Inr d \<longrightarrow>
      (\<exists>arr arrs. check_data_type data = Inr (arr # arrs)
         \<and> (\<forall>a\<in>set arrs. nd_shape a = nd_shape arr)
         \<and> db_shape d = nd_shape arr
         \<and> db_dim d =
             (if length (nd_shape arr) = 1 \<and> nd_size arr = 1 then Data0D
              else if length (nd_shape arr) = 1 \<and> nd_size arr > 1 then Data1D
              else if length (nd_shape arr) = 2 then Data2D
              else DataND)))
   \<and> (DataWithAxes_init name source None distribution data labels origin axes (Some [])
         kwargs = Inr w \<longrightarrow>
      (\<exists>arr arrs. check_data_type data = Inr (arr # arrs)
         \<and> db_shape w = nd_shape arr
         \<and> db_dim w =
             (if length (nd_shape arr) = 1 \<and> nd_size arr = 1 then Data0D
              else if length (nd_shape arr) = 1 \<and> nd_size arr > 1 then Data1D
              else if length (nd_shape arr) = 2 then Data2D
              else DataND)))"
proof (intro conjI impI)
  assume "DataBase_init name source None distribution data labels origin = Inr d"
  from DataBase_init_Inr[OF this]
  show "\<exists>arr arrs. check_data_type data = Inr (arr # arrs)
         \<and> (\<forall>a\<in>set arrs. nd_shape a = nd_shape arr)
         \<and> db_shape d = nd_shape arr
         \<and> db_dim d =
             (if length (nd_shape arr) = 1 \<and> nd_size arr = 1 then Data0D
              else if length (nd_shape arr) = 1 \<and> nd_size arr > 1 then Data1D
              else if length (nd_shape arr) = 2 then Data2D
              else DataND)"
    unfolding dim_from_shape_def by blast
next
  assume a: "DataWithAxes_init name source None distribution data labels origin axes (Some [])
         kwargs = Inr w"
  then obtain base am where
    b: "DataBase_init name source None distribution data labels origin = Inr base"
    and m: "AxesManager_init (db_shape base) axes (Some []) None kwargs = Inr am"
    and g: "get_dim_from_data_axes
                 \<lparr>db_name = db_name base, db_origin = db_origin base,
                  db_source = db_source base, db_distribution = db_distribution base,
                  db_dim = db_dim base, db_shape = db_shape base, db_size = db_size base,
                  db_length = db_length base, db_data = db_data base,
                  db_labels = db_labels base, dwa_axes_manager = am\<rparr> = Inr w"
    by (auto simp: DataWithAxes_init_def split: sum.splits)
  from AxesManager_init_Inr[OF m] have "am_nav_indexes am = Some []" by simp
  with g have "db_dim w = db_dim base" "db_shape w = db_shape base"
    by (auto simp: get_dim_from_data_axes_def)
  with DataBase_init_Inr[OF b]
  show "\<exists>arr arrs. check_data_type data = Inr (arr # arrs)
         \<and> db_shape w = nd_shape arr
         \<and> db_dim w =
             (if length (nd_shape arr) = 1 \<and> nd_size arr = 1 then Data0D
              else if length (nd_shape arr) = 1 \<and> nd_size arr > 1 then Data1D
              else if length (nd_shape arr) = 2 then Data2D
              else DataND)"
    unfolding dim_from_shape_def by auto
qed

text \<open>
  The shapes \<open>(1,)\<close>, \<open>(100,)\<close>, \<open>(50, 100)\<close> and \<open>(3, 50, 100)\<close> give Data0D,
  Data1D, Data2D and DataND.
\<close>

theorem DataBase_dim_derived_from_shape_witness:
  "DataBase_init ''d'' raw None uniform (DataList [\<lparr>nd_shape = [1], nd_values = [Fl 0]\<rparr>]) []
      None =
     Inr \<lparr>db_name = ''d'', db_origin = None, db_source = raw, db_distribution = uniform,
          db_dim = Data0D, db_shape = [1], db_size = 1, db_length = 1,
          db_data = [\<lparr>nd_shape = [1], nd_values = [Fl 0]\<rparr>], db_labels = [''CH00'']\<rparr>
   \<and> (\<exists>d. DataBase_init ''d'' raw None uniform
             (DataList [\<lparr>nd_shape = [100], nd_values = replicate 100 (Fl 0)\<rparr>]) [] None = Inr d
          \<and> db_dim d = Data1D)
   \<and> (\<exists>d. DataBase_init ''d'' raw None uniform
             (DataList [\<lparr>nd_shape = [50, 100], nd_values = replicate 5000 (Fl 0)\<rparr>]) [] None
            = Inr d
          \<and> db_dim d = Data2D)
   \<and> (\<exists>d. DataBase_init ''d'' raw None uniform
             (DataList [\<lparr>nd_shape = [3, 50, 100], nd_values = replicate 15000 (Fl 0)\<rparr>]) []
             None = Inr d
          \<and> db_dim d = DataND)
   \<and> (\<exists>w. DataWithAxes_init ''d'' raw None uniform
             (DataList [\<lparr>nd_shape = [3, 50, 100], nd_values = replicate 15000 (Fl 0)\<rparr>]) []
             None [] (Some []) no_named = Inr w
          \<and> db_dim w = DataND)"
proof -
  have e: ?thesis
    by (simp add: data_defs init_defs upt_rec)
  show ?thesis
    using DataBase_dim_derived_from_shape
      [of "''d''" raw uniform "DataList [\<lparr>nd_shape = [1], nd_values = [Fl 0]\<rparr>]" "[]" None
          "\<lparr>db_name = ''d'', db_origin = None, db_source = raw, db_distribution = uniform,
          db_dim = Data0D, db_shape = [1], db_size = 1, db_length = 1,
          db_data = [\<lparr>nd_shape = [1], nd_values = [Fl 0]\<rparr>], db_labels = [''CH00'']\<rparr>"]
    by - (rule e)
qed

section \<open>Properties of DataToExport\<close>

text \<open>
  C5. The specification says that a member appended with an unset origin gets the name of
  the container as origin. \<^verbatim>\<open>append\<close> never calls
  \<^verbatim>\<open>affect_name_to_origin_if_none\<close>; only the \<^verbatim>\<open>data\<close> setter, which the
  constructor uses, does. Appending the data \<open>x\<close> without origin to the empty container
  \<open>det\<close> stores it with origin None, while the constructor given the same member stores
  it with origin \<open>det\<close>.
\<close>

theorem append_keeps_origin_unset:
  "DataWithAxes_init ''x'' raw None uniform (DataList [\<lparr>nd_shape = [1], nd_values = [Fl 0]\<rparr>])
      [] None [] (Some []) no_named = Inr (scalar_data ''x'' None 0)
   \<and> DataToExport_append (DataToExport_init ''det'' []) (scalar_data ''x'' None 0) =
       Inr \<lparr>dte_name = ''det'', dte_data = [scalar_data ''x'' None 0]\<rparr>
   \<and> DataToExport_init ''det'' [scalar_data ''x'' None 0] =
       \<lparr>dte_name = ''det'', dte_data = [scalar_data ''x'' (Some ''det'') 0]\<rparr>"
  by (simp add: data_defs init_defs export_defs upt_rec)

text \<open>
  C3. The specification says that appending data whose name and origin are those of a
  member removes that member, and that data of the same name and another origin are both
  kept. After the data \<open>a\<close> of origin \<open>o1\<close> and the data \<open>a\<close> of origin \<open>o2\<close> are
  appended (both are kept), appending new data \<open>a\<close> of origin \<open>o2\<close> removes the member
  of origin \<open>o1\<close>: the member found by name and origin is located again with
  \<^verbatim>\<open>self.data.index(obj)\<close>, which compares by \<^verbatim>\<open>DataBase.__eq__\<close> (name and
  values, not origin) and stops at the member of origin \<open>o1\<close>. And data \<open>a\<close> appended
  without origin replaces the member \<open>a\<close> of origin \<open>o1\<close>, because the lookup then goes
  by name alone.
\<close>

theorem append_removes_member_of_other_origin:
  "DataToExport_append (DataToExport_init ''det'' []) (scalar_data ''a'' (Some ''o1'') 0) =
       Inr \<lparr>dte_name = ''det'', dte_data = [scalar_data ''a'' (Some ''o1'') 0]\<rparr>
   \<and> DataToExport_append \<lparr>dte_name = ''det'', dte_data = [scalar_data ''a'' (Some ''o1'') 0]\<rparr>
        (scalar_data ''a'' (Some ''o2'') 0) =
       Inr \<lparr>dte_name = ''det'',
            dte_data = [scalar_data ''a'' (Some ''o1'') 0, scalar_data ''a'' (Some ''o2'') 0]\<rparr>
   \<and> DataToExport_append
        \<lparr>dte_name = ''det'',
         dte_data = [scalar_data ''a'' (Some ''o1'') 0, scalar_data ''a'' (Some ''o2'') 0]\<rparr>
        (scalar_data ''a'' (Some ''o2'') 5) =
       Inr \<lparr>dte_name = ''det'',
            dte_data = [scalar_data ''a'' (Some ''o2'') 0, scalar_data ''a'' (Some ''o2'') 5]\<rparr>
   \<and> DataToExport_append \<lparr>dte_name = ''det'', dte_data = [scalar_data ''a'' (Some ''o1'') 0]\<rparr>
        (scalar_data ''a'' None 5) =
       Inr \<lparr>dte_name = ''det'', dte_data = [scalar_data ''a'' None 5]\<rparr>"
  by (simp add: export_defs upt_rec)

section \<open>Properties of the arithmetic of DataBase\<close>

text \<open>
  Broadcasting on examples: \<open>(3,)\<close> with \<open>(1,)\<close>, \<open>(2, 1)\<close> with \<open>(3,)\<close>, and the
  shapes \<open>(2,)\<close> and \<open>(3,)\<close>, which do not match.
\<close>

lemma np_binop_broadcast_examples:
  "np_binop fsub \<lparr>nd_shape = [3], nd_values = [Fl 1, Fl 2, Fl 3]\<rparr>
      \<lparr>nd_shape = [1], nd_values = [Fl 10]\<rparr> =
     Inr \<lparr>nd_shape = [3], nd_values = [Fl (- 9), Fl (- 8), Fl (- 7)]\<rparr>"
  "np_binop fadd \<lparr>nd_shape = [2, 1], nd_values = [Fl 10, Fl 20]\<rparr>
      \<lparr>nd_shape = [3], nd_values = [Fl 1, Fl 2, Fl 3]\<rparr> =
     Inr \<lparr>nd_shape = [2, 3], nd_values = [Fl 11, Fl 12, Fl 13, Fl 21, Fl 22, Fl 23]\<rparr>"
  "np_binop fadd \<lparr>nd_shape = [2], nd_values = [Fl 10, Fl 20]\<rparr>
      \<lparr>nd_shape = [3], nd_values = [Fl 1, Fl 2, Fl 3]\<rparr> = Inl ValueError"
  by (simp_all add: np_binop_def broadcast_shapes_def pad_shape_def broadcast_pos_def upt_rec)












text \<open>
  The state that the constructor leaves: \<^verbatim>\<open>_length\<close> is the length of the list and
  every array has the shape \<^verbatim>\<open>_shape\<close>.
\<close>

lemma check_labels_data:
  "db_data (check_labels self labels) = db_data self"
  "db_length (check_labels self labels) = db_length self"
  by (induction self labels rule: check_labels.induct; simp add: check_labels.simps)+

lemma DataBase_init_consistent:
  assumes "DataBase_init name source dim0 distribution data labels origin = Inr d"
  shows "db_length d = length (db_data d) \<and> (\<forall>x\<in>set (db_data d). nd_shape x = db_shape d)"
proof -
  from assms obtain s1 where
    s: "DataBase_set_data
             \<lparr>db_name = name, db_origin = origin, db_source = source,
              db_distribution = distribution, db_dim = DataND, db_shape = [], db_size = 0,
              db_length = 0, db_data = [], db_labels = []\<rparr> dim0 data = Inr s1"
    and d: "d = check_labels s1 labels"
    by (auto simp: DataBase_init_def split: sum.splits)
  from s obtain dat s0 where c: "check_data_type data = Inr dat"
    and k: "check_shape_dim_consistency
             \<lparr>db_name = name, db_origin = origin, db_source = source,
              db_distribution = distribution, db_dim = DataND, db_shape = [], db_size = 0,
              db_length = 0, db_data = [], db_labels = []\<rparr> dim0 dat = Inr s0"
    and sh: "check_same_shape (db_shape s0) dat = Inr ()"
    and r: "s1 = s0\<lparr>db_data := dat\<rparr>"
    by (auto simp: DataBase_set_data_def split: sum.splits)
  from k have "db_length s0 = length dat"
    by (auto simp: check_shape_dim_consistency_def get_dim_from_data_def Let_def
        split: list.splits option.splits if_splits)
  with check_same_shape_Inr[OF sh] r d show ?thesis
    by (simp add: check_labels_data check_labels_shape)
qed






end
